theory Spec2Isabelle
  imports Complex_Main "HOL-Library.AList" "HOL-Library.Char_ord" "HOL-Library.List_Lexorder"
begin

section \<open>The tree-walking evaluator of the interpreter\<close>

text \<open>
  This theory embeds \<^verbatim>\<open>EvalVisitor\<close> (AbstractSyntaxTree.hpp/.cpp) and the entry point
  \<^verbatim>\<open>interpret\<close> (interpreter.cpp). Conventions of the embedding:

  \<^item> \<^verbatim>\<open>double\<close> is idealised as \<open>real\<close>. Rounding, infinities and NaN are not
    represented; an operation whose IEEE result is infinite or NaN (division by zero,
    \<^verbatim>\<open>fmod\<close> by zero, \<^verbatim>\<open>sqrt\<close> of a negative number, ...) ends in the failure
    \<open>Unmodelled\<close> instead of inventing a value.
  \<^item> \<^verbatim>\<open>std::shared_ptr<std::string>\<close>, \<^verbatim>\<open>std::shared_ptr<List>\<close> and
    \<^verbatim>\<open>std::shared_ptr<FunctionDefinition>\<close> are addresses: natural numbers that index a
    heap of strings, a heap of lists (both part of the evaluator state, since the built-ins
    mutate them through the pointer) and the immutable table of function definitions of the
    program. \<^verbatim>\<open>std::make_shared\<close> allocates at the first unused address. The order of two
    addresses stands for the order of the two pointers, which in C++ is fixed by the allocator.
  \<^item> A C++ exception is the failure \<open>Thrown e s\<close>, with the exception and the state of the
    visitor at the \<^verbatim>\<open>throw\<close>; the evaluator never catches.
  \<^item> Undefined behaviour of C++ (an out-of-range \<^verbatim>\<open>operator[]\<close>, a double-to-integer
    conversion out of range, a dangling address) is the failure \<open>Undefined\<close>.
  \<^item> Recursion and \<^verbatim>\<open>while\<close> loops of the interpreted program need not terminate, so
    the visitor takes fuel; \<open>OutOfFuel\<close> says that the given fuel did not suffice.
  \<^item> A \<^verbatim>\<open>std::vector\<close> used as a stack (\<^verbatim>\<open>scopes_\<close>, \<^verbatim>\<open>function_names_\<close>) is a list
    whose head is \<^verbatim>\<open>back()\<close>.
\<close>

subsection \<open>Tokens, built-in names and AST nodes\<close>

datatype TokenType =
    kEOF | kIncorrect | kEndLine
  | kIdentifier | kString | kNumber | kTrue | kFalse | kNil
  | kWhile | kFor | kFunction | kBreak | kContinue
  | kEnd | kReturn | kIf | kElse | kIn | kThen | kElseIf
  | kComma | kColon | kLParen | kRParen | kLBracket | kRBracket
  | kPlus | kMinus | kMultiply | kDivide | kModulo | kPower
  | kEqual | kNotEqual | kLess | kGreater | kLessOrEqual | kGreaterOrEqual
  | kLogicalAnd | kLogicalOr | kLogicalNot
  | kAssign | kAddAssign | kSubAssign | kMultAssign | kDivAssign | kModAssign | kPowAssign

datatype Name =
    kPrint | kPrintln | kRead | kStackTrace
  | kLen | kLower | kUpper | kSplit | kJoin | kReplace | kCapitalize
  | kAbs | kSqrt | kCeil | kFloor | kRound | kRnd | kParseNumber | kToString
  | kRange | kPush | kPop | kInsert | kRemove | kSort | kSlice

text \<open>
  The node classes derived from \<^verbatim>\<open>BaseNode\<close>. \<^verbatim>\<open>FunctionImplementationNode\<close> holds the
  address of its shared \<^verbatim>\<open>FunctionDefinition\<close>. \<^verbatim>\<open>ValueNode\<close> is left out: nothing in the
  repository constructs one.
\<close>

datatype node =
    NumberLiteralNode real
  | StringLiteralNode string
  | ListLiteralNode "node list"
  | NilLiteralNode
  | VariableNode string
  | BinaryOperationNode TokenType node node
  | UnaryOperationNode TokenType node
  | IfNode "node list" "node list" node
  | WhileNode node "node list"
  | ForNode string node "node list"
  | RootNode "node list"
  | GlobalFunctionNode Name "node list"
  | FunctionCallNode string "node list"
  | UnnamedFunctionCallNode node "node list"
  | FunctionImplementationNode nat
  | BreakNode
  | ContinueNode
  | ReturnNode node

record FunctionDefinition =
  body :: "node list"
  arg_names :: "string list"

subsection \<open>Runtime values and the state of the visitor\<close>

text \<open>\<^verbatim>\<open>ValueType = std::variant<std::monostate, double, StringPtr, FunctionPtr, ListPtr>\<close>.\<close>

datatype val =
    Monostate
  | Number real
  | StringPtr nat
  | FunctionPtr nat
  | ListPtr nat

datatype ControlFlow = kContinue | kBreak | kReturn | kDefault

text \<open>
  The members of \<^verbatim>\<open>EvalVisitor\<close>, the two heaps, and the number of calls of
  \<^verbatim>\<open>std::rand\<close> made so far. A \<^verbatim>\<open>Scope\<close> (\<^verbatim>\<open>std::unordered_map\<close>) is an association
  list with unique keys; its order stands for the iteration order of the hash table,
  which only \<^verbatim>\<open>stacktrace()\<close> observes.
\<close>

record state =
  result :: val
  scopes :: "(string \<times> val) list list"
  function_names :: "string set list"
  control_flow :: ControlFlow
  out :: string
  inp :: string
  string_heap :: "string list"
  list_heap :: "val list list"
  rand_calls :: nat

text \<open>The exceptions the interpreter throws: \<^verbatim>\<open>std::runtime_error(message)\<close> of its own,
  \<^verbatim>\<open>std::bad_variant_access\<close> from \<^verbatim>\<open>std::get\<close>, and \<^verbatim>\<open>std::out_of_range\<close> from
  \<^verbatim>\<open>substr(pos, len)\<close> on a string of the given size.\<close>

datatype exn =
    runtime_error string
  | bad_variant_access
  | out_of_range nat nat

datatype failure =
    Thrown exn state
  | Undefined
  | Unmodelled
  | OutOfFuel

type_synonym 'a outcome = "failure + 'a"

definition throw :: "exn \<Rightarrow> state \<Rightarrow> 'a outcome" where
  "throw e s = Inl (Thrown e s)"

definition and_then :: "'a outcome \<Rightarrow> ('a \<Rightarrow> 'b outcome) \<Rightarrow> 'b outcome" where
  "and_then m f = (case m of Inl e \<Rightarrow> Inl e | Inr x \<Rightarrow> f x)"

text \<open>The state in which a fresh \<^verbatim>\<open>EvalVisitor\<close> starts, reading from the given input.\<close>

definition initial :: "string \<Rightarrow> state" where
  "initial input = \<lparr> result = Monostate, scopes = [], function_names = [],
     control_flow = kDefault, out = [], inp = input,
     string_heap = [], list_heap = [], rand_calls = 0 \<rparr>"

subsection \<open>Heap access\<close>

definition string_at :: "state \<Rightarrow> nat \<Rightarrow> string outcome" where
  "string_at s p = (if p < length (string_heap s) then Inr (string_heap s ! p) else Inl Undefined)"

definition list_at :: "state \<Rightarrow> nat \<Rightarrow> val list outcome" where
  "list_at s p = (if p < length (list_heap s) then Inr (list_heap s ! p) else Inl Undefined)"

text \<open>\<^verbatim>\<open>result_ = std::make_shared<std::string>(str)\<close> and \<^verbatim>\<open>result_ = std::make_shared<List>(elements)\<close>.\<close>

definition make_shared_string :: "string \<Rightarrow> state \<Rightarrow> state" where
  "make_shared_string str s =
     s\<lparr> result := StringPtr (length (string_heap s)), string_heap := string_heap s @ [str] \<rparr>"

definition make_shared_List :: "val list \<Rightarrow> state \<Rightarrow> state" where
  "make_shared_List elements s =
     s\<lparr> result := ListPtr (length (list_heap s)), list_heap := list_heap s @ [elements] \<rparr>"

subsection \<open>Conversions of \<^verbatim>\<open>double\<close>\<close>

definition trunc :: "real \<Rightarrow> int" where
  "trunc x = (if 0 \<le> x then \<lfloor>x\<rfloor> else \<lceil>x\<rceil>)"

text \<open>\<^verbatim>\<open>static_cast<std::size_t>(x)\<close> and \<^verbatim>\<open>static_cast<int64_t>(x)\<close>: truncation towards
  zero, undefined when the truncated value is not representable.\<close>

definition size_t_cast :: "real \<Rightarrow> nat option" where
  "size_t_cast x = (let t = trunc x in if 0 \<le> t \<and> t < 2 ^ 64 then Some (nat t) else None)"

definition int64_cast :: "real \<Rightarrow> int option" where
  "int64_cast x = (let t = trunc x in if - (2 ^ 63) \<le> t \<and> t < 2 ^ 63 then Some t else None)"

subsection \<open>Boolean coercion and comparison\<close>

fun HoldsNumber :: "val \<Rightarrow> bool" where
  "HoldsNumber (Number _) = True"
| "HoldsNumber _ = False"

fun HoldsString :: "val \<Rightarrow> bool" where
  "HoldsString (StringPtr _) = True"
| "HoldsString _ = False"

fun HoldsList :: "val \<Rightarrow> bool" where
  "HoldsList (ListPtr _) = True"
| "HoldsList _ = False"

fun HoldsFunction :: "val \<Rightarrow> bool" where
  "HoldsFunction (FunctionPtr _) = True"
| "HoldsFunction _ = False"

definition HoldsIterable :: "val \<Rightarrow> bool" where
  "HoldsIterable v = (HoldsList v \<or> HoldsString v)"

fun GetBool :: "state \<Rightarrow> val \<Rightarrow> bool outcome" where
  "GetBool s Monostate = Inr False"
| "GetBool s (Number arg) = Inr (arg \<noteq> 0)"
| "GetBool s (StringPtr p) = and_then (string_at s p) (\<lambda>str. Inr (str \<noteq> []))"
| "GetBool s (FunctionPtr p) = Inr False"
| "GetBool s (ListPtr p) = and_then (list_at s p) (\<lambda>elements. Inr (elements \<noteq> []))"

text \<open>The function objects \<^verbatim>\<open>std::less()\<close>, ..., passed to \<^verbatim>\<open>CalculateCompare\<close>.\<close>

datatype comparison =
  std_less | std_greater | std_equal_to | std_not_equal_to | std_less_equal | std_greater_equal

fun apply_comparison :: "comparison \<Rightarrow> 'a::linorder \<Rightarrow> 'a \<Rightarrow> bool" where
  "apply_comparison std_less a b = (a < b)"
| "apply_comparison std_greater a b = (a > b)"
| "apply_comparison std_equal_to a b = (a = b)"
| "apply_comparison std_not_equal_to a b = (a \<noteq> b)"
| "apply_comparison std_less_equal a b = (a \<le> b)"
| "apply_comparison std_greater_equal a b = (a \<ge> b)"

text \<open>
  \<^verbatim>\<open>CalculateCompare\<close>: operands of the same alternative are compared with the function
  object, which for \<^verbatim>\<open>std::monostate\<close> compares two equal values and for the three
  \<^verbatim>\<open>shared_ptr\<close> alternatives compares the pointers; operands of different alternatives
  give \<open>0.0\<close>.
\<close>

fun CalculateCompare :: "val \<Rightarrow> val \<Rightarrow> comparison \<Rightarrow> state \<Rightarrow> state" where
  "CalculateCompare Monostate Monostate opr s = s\<lparr>result := Number (of_bool (apply_comparison opr () ()))\<rparr>"
| "CalculateCompare (Number a) (Number b) opr s = s\<lparr>result := Number (of_bool (apply_comparison opr a b))\<rparr>"
| "CalculateCompare (StringPtr a) (StringPtr b) opr s = s\<lparr>result := Number (of_bool (apply_comparison opr a b))\<rparr>"
| "CalculateCompare (FunctionPtr a) (FunctionPtr b) opr s = s\<lparr>result := Number (of_bool (apply_comparison opr a b))\<rparr>"
| "CalculateCompare (ListPtr a) (ListPtr b) opr s = s\<lparr>result := Number (of_bool (apply_comparison opr a b))\<rparr>"
| "CalculateCompare lhs rhs opr s = s\<lparr>result := Number 0\<rparr>"

text \<open>
  \<^verbatim>\<open>CalculateLess\<close>, \<^verbatim>\<open>CalculateGreater\<close>, \<^verbatim>\<open>CalculateEqual\<close>, \<^verbatim>\<open>CalculateNotEqual\<close>,
  \<^verbatim>\<open>CalculateLessOrEqual\<close> and \<^verbatim>\<open>CalculateGreaterOrEqual\<close> share one body up to the
  operator: two strings are compared by content (\<^verbatim>\<open>std::string\<close> compares bytes
  lexicographically), everything else goes to \<^verbatim>\<open>CalculateCompare\<close>.
\<close>

definition compare_values :: "comparison \<Rightarrow> val \<Rightarrow> val \<Rightarrow> state \<Rightarrow> state outcome" where
  "compare_values opr lhs rhs s =
     (case (lhs, rhs) of
        (StringPtr p, StringPtr q) \<Rightarrow>
          and_then (string_at s p) (\<lambda>x. and_then (string_at s q) (\<lambda>y.
            Inr (s\<lparr>result := Number (of_bool (apply_comparison opr x y))\<rparr>)))
      | _ \<Rightarrow> Inr (CalculateCompare lhs rhs opr s))"

definition CalculateLess :: "val \<Rightarrow> val \<Rightarrow> state \<Rightarrow> state outcome" where
  "CalculateLess = compare_values std_less"

definition CalculateGreater :: "val \<Rightarrow> val \<Rightarrow> state \<Rightarrow> state outcome" where
  "CalculateGreater = compare_values std_greater"

definition CalculateEqual :: "val \<Rightarrow> val \<Rightarrow> state \<Rightarrow> state outcome" where
  "CalculateEqual = compare_values std_equal_to"

definition CalculateNotEqual :: "val \<Rightarrow> val \<Rightarrow> state \<Rightarrow> state outcome" where
  "CalculateNotEqual = compare_values std_not_equal_to"

definition CalculateLessOrEqual :: "val \<Rightarrow> val \<Rightarrow> state \<Rightarrow> state outcome" where
  "CalculateLessOrEqual = compare_values std_less_equal"

definition CalculateGreaterOrEqual :: "val \<Rightarrow> val \<Rightarrow> state \<Rightarrow> state outcome" where
  "CalculateGreaterOrEqual = compare_values std_greater_equal"

subsection \<open>Arithmetic on values\<close>

text \<open>
  \<^verbatim>\<open>CalculateMult\<close>. The list branch computes
  \<^verbatim>\<open>static_cast<std::size_t>(rhs_value) * lhs_list->elements.size()\<close> (a product of two
  \<^verbatim>\<open>size_t\<close>, which wraps), the string branch
  \<^verbatim>\<open>rhs_value * static_cast<double>(lhs_value.size())\<close> converted to \<^verbatim>\<open>size_t\<close>.
\<close>

definition CalculateMult :: "val \<Rightarrow> val \<Rightarrow> state \<Rightarrow> state outcome" where
  "CalculateMult lhs rhs s =
     (case (lhs, rhs) of
        (Number a, Number b) \<Rightarrow> Inr (s\<lparr>result := Number (a * b)\<rparr>)
      | (ListPtr p, Number rhs_value) \<Rightarrow>
          if rhs_value < 0
          then throw (runtime_error ''Can not multiply a list by a negative number'') s
          else and_then (list_at s p) (\<lambda>elements.
            case size_t_cast rhs_value of
              None \<Rightarrow> Inl Undefined
            | Some k \<Rightarrow>
                let new_size = (k * length elements) mod 2 ^ 64;
                    buffer = map (\<lambda>i. elements ! (i mod length elements)) [0..<new_size]
                in Inr (make_shared_List buffer s))
      | (StringPtr p, Number rhs_value) \<Rightarrow>
          if rhs_value < 0
          then throw (runtime_error ''Can not multiply a string by a negative number'') s
          else and_then (string_at s p) (\<lambda>lhs_value.
            case size_t_cast (rhs_value * real (length lhs_value)) of
              None \<Rightarrow> Inl Undefined
            | Some new_size \<Rightarrow>
                let buffer = map (\<lambda>i. lhs_value ! (i mod length lhs_value)) [0..<new_size]
                in Inr (make_shared_string buffer s))
      | _ \<Rightarrow> throw (runtime_error ''Incorrect operands in binary expression: A * B'') s)"

definition CalculateAdd :: "val \<Rightarrow> val \<Rightarrow> state \<Rightarrow> state outcome" where
  "CalculateAdd lhs rhs s =
     (case (lhs, rhs) of
        (Number a, Number b) \<Rightarrow> Inr (s\<lparr>result := Number (a + b)\<rparr>)
      | (StringPtr p, StringPtr q) \<Rightarrow>
          and_then (string_at s p) (\<lambda>x. and_then (string_at s q) (\<lambda>y.
            Inr (make_shared_string (x @ y) s)))
      | (ListPtr p, ListPtr q) \<Rightarrow>
          and_then (list_at s p) (\<lambda>lhs_list. and_then (list_at s q) (\<lambda>rhs_list.
            Inr (make_shared_List (lhs_list @ rhs_list) s)))
      | _ \<Rightarrow> throw (runtime_error ''Incorrect operands in binary expression: A + B'') s)"

definition ends_with :: "string \<Rightarrow> string \<Rightarrow> bool" where
  "ends_with x y = (length y \<le> length x \<and> drop (length x - length y) x = y)"

definition CalculateSub :: "val \<Rightarrow> val \<Rightarrow> state \<Rightarrow> state outcome" where
  "CalculateSub lhs rhs s =
     (case (lhs, rhs) of
        (StringPtr p, StringPtr q) \<Rightarrow>
          and_then (string_at s p) (\<lambda>lhs_value. and_then (string_at s q) (\<lambda>rhs_value.
            Inr (make_shared_string
                  (if ends_with lhs_value rhs_value
                   then take (length lhs_value - length rhs_value) lhs_value
                   else lhs_value) s)))
      | (Number a, Number b) \<Rightarrow> Inr (s\<lparr>result := Number (a - b)\<rparr>)
      | _ \<Rightarrow> throw (runtime_error ''Incorrect operands in binary expression: A - B'') s)"

text \<open>Division, \<^verbatim>\<open>std::fmod\<close> and \<^verbatim>\<open>std::pow\<close>, where their IEEE result is finite.\<close>

definition CalculateDiv :: "val \<Rightarrow> val \<Rightarrow> state \<Rightarrow> state outcome" where
  "CalculateDiv lhs rhs s =
     (case (lhs, rhs) of
        (Number a, Number b) \<Rightarrow>
          if b = 0 then Inl Unmodelled else Inr (s\<lparr>result := Number (a / b)\<rparr>)
      | _ \<Rightarrow> throw (runtime_error ''Incorrect operands in binary expression: A / B'') s)"

definition fmod :: "real \<Rightarrow> real \<Rightarrow> real option" where
  "fmod a b = (if b = 0 then None else Some (a - b * of_int (trunc (a / b))))"

definition CalculateMod :: "val \<Rightarrow> val \<Rightarrow> state \<Rightarrow> state outcome" where
  "CalculateMod lhs rhs s =
     (case (lhs, rhs) of
        (Number a, Number b) \<Rightarrow>
          (case fmod a b of None \<Rightarrow> Inl Unmodelled | Some r \<Rightarrow> Inr (s\<lparr>result := Number r\<rparr>))
      | _ \<Rightarrow> throw (runtime_error ''Incorrect operands in binary expression: A % B'') s)"

definition pow :: "real \<Rightarrow> real \<Rightarrow> real option" where
  "pow a b =
     (if b = 0 then Some 1
      else if a = 0 then (if 0 < b then Some 0 else None)
      else if of_int \<lfloor>b\<rfloor> = b then Some (a powi \<lfloor>b\<rfloor>)
      else if 0 < a then Some (a powr b)
      else None)"

definition CalculatePow :: "val \<Rightarrow> val \<Rightarrow> state \<Rightarrow> state outcome" where
  "CalculatePow lhs rhs s =
     (case (lhs, rhs) of
        (Number a, Number b) \<Rightarrow>
          (case pow a b of None \<Rightarrow> Inl Unmodelled | Some r \<Rightarrow> Inr (s\<lparr>result := Number r\<rparr>))
      | _ \<Rightarrow> throw (runtime_error ''Incorrect operands in binary expression: A ^ B'') s)"

subsection \<open>The scope stack\<close>

definition PushScope :: "state \<Rightarrow> state" where
  "PushScope s = s\<lparr> scopes := [] # scopes s, function_names := {} # function_names s \<rparr>"

definition PopScope :: "state \<Rightarrow> state" where
  "PopScope s =
     s\<lparr> scopes := (case scopes s of [] \<Rightarrow> [] | _ # rest \<Rightarrow> rest),
        function_names := (case function_names s of [] \<Rightarrow> [] | _ # rest \<Rightarrow> rest) \<rparr>"

text \<open>\<^verbatim>\<open>FindVariable\<close> walks the stack from \<^verbatim>\<open>rbegin()\<close>; the first scope that has the name wins.\<close>

fun find_variable :: "(string \<times> val) list list \<Rightarrow> string \<Rightarrow> val option" where
  "find_variable [] variable_name = None"
| "find_variable (scope # rest) variable_name =
     (case map_of scope variable_name of
        Some v \<Rightarrow> Some v
      | None \<Rightarrow> find_variable rest variable_name)"

definition FindVariable :: "state \<Rightarrow> string \<Rightarrow> val option" where
  "FindVariable s variable_name = find_variable (scopes s) variable_name"

text \<open>The first loop of \<^verbatim>\<open>SetVariable\<close>: overwrite the binding in the nearest scope that has
  the name, if there is one.\<close>

fun assign_existing ::
  "(string \<times> val) list list \<Rightarrow> string \<Rightarrow> val \<Rightarrow> (string \<times> val) list list option" where
  "assign_existing [] variable_name v = None"
| "assign_existing (scope # rest) variable_name v =
     (case map_of scope variable_name of
        Some _ \<Rightarrow> Some (AList.update variable_name v scope # rest)
      | None \<Rightarrow> map_option ((#) scope) (assign_existing rest variable_name v))"

text \<open>\<^verbatim>\<open>function_names_.back().insert(name)\<close>; \<^verbatim>\<open>back()\<close> of an empty vector is undefined.\<close>

definition insert_function_name :: "string \<Rightarrow> state \<Rightarrow> state outcome" where
  "insert_function_name variable_name s =
     (case function_names s of
        [] \<Rightarrow> Inl Undefined
      | names # rest \<Rightarrow> Inr (s\<lparr>function_names := insert variable_name names # rest\<rparr>))"

definition SetVariable :: "string \<Rightarrow> val \<Rightarrow> state \<Rightarrow> state outcome" where
  "SetVariable variable_name v s =
     (let s1 = (if scopes s = [] then PushScope s else s);
          s2 = (case assign_existing (scopes s1) variable_name v of
                  Some updated \<Rightarrow> s1\<lparr>scopes := updated\<rparr>
                | None \<Rightarrow>
                    s1\<lparr>scopes := AList.update variable_name v (hd (scopes s1)) # tl (scopes s1)\<rparr>)
      in if HoldsFunction v then insert_function_name variable_name s2 else Inr s2)"

definition IsFunctionName :: "state \<Rightarrow> string \<Rightarrow> bool" where
  "IsFunctionName s function_name = list_ex (\<lambda>scope. function_name \<in> scope) (function_names s)"

text \<open>\<^verbatim>\<open>AssignToLeftOperand\<close>, given the left operand of the node.\<close>

definition AssignToLeftOperand :: "node \<Rightarrow> state \<Rightarrow> state outcome" where
  "AssignToLeftOperand lhs s =
     (case lhs of
        VariableNode variable_name \<Rightarrow>
          let s1 = (if HoldsFunction (result s)
                    then (case function_names s of
                            [] \<Rightarrow> s\<lparr>function_names := [{variable_name}]\<rparr>
                          | names # rest \<Rightarrow>
                              s\<lparr>function_names := insert variable_name names # rest\<rparr>)
                    else s)
          in SetVariable variable_name (result s1) s1
      | _ \<Rightarrow> throw (runtime_error ''The left operand of the assignment must be a variable'') s)"

subsection \<open>Canonical stringification\<close>

definition digit :: "nat \<Rightarrow> char" where
  "digit d = ''0123456789'' ! d"

fun digits :: "nat \<Rightarrow> string" where
  "digits n = (if n < 10 then [digit n] else digits (n div 10) @ [digit (n mod 10)])"

declare digits.simps [simp del]

text \<open>\<^verbatim>\<open>std::to_string(int64_t)\<close>, also used by \<^verbatim>\<open>std::format\<close> for a \<^verbatim>\<open>size_t\<close>.\<close>

definition to_string_int :: "int \<Rightarrow> string" where
  "to_string_int i = (if i < 0 then CHR ''-'' # digits (nat (- i)) else digits (nat i))"

definition round_half_even :: "real \<Rightarrow> int" where
  "round_half_even y =
     (let q = \<lfloor>y\<rfloor>; r = y - of_int q
      in if r < 1 / 2 then q else if 1 / 2 < r then q + 1 else if even q then q else q + 1)"

text \<open>\<^verbatim>\<open>std::to_string(double)\<close> prints as \<^verbatim>\<open>%f\<close>: six decimals, the exact value rounded to
  nearest, ties to even.\<close>

definition to_string_double :: "real \<Rightarrow> string" where
  "to_string_double x =
     (let m = nat (round_half_even (\<bar>x\<bar> * 10 ^ 6));
          fraction = digits (m mod 10 ^ 6)
      in (if x < 0 then ''-'' else []) @ digits (m div 10 ^ 6) @ ''.''
         @ replicate (6 - length fraction) CHR ''0'' @ fraction)"

definition separated :: "string \<Rightarrow> string list \<Rightarrow> string" where
  "separated sep parts = concat (case parts of [] \<Rightarrow> [] | x # xs \<Rightarrow> x # map ((@) sep) xs)"

text \<open>\<^verbatim>\<open>ToString\<close> recurses through the list heap, where a list may contain itself; its
  fuel bounds the nesting depth.\<close>

fun ToString :: "nat \<Rightarrow> state \<Rightarrow> val \<Rightarrow> string outcome"
and ToString_elements :: "nat \<Rightarrow> state \<Rightarrow> val list \<Rightarrow> string list outcome" where
  "ToString 0 s v = Inl OutOfFuel"
| "ToString (Suc n) s Monostate = Inr ''nil''"
| "ToString (Suc n) s (Number arg) =
     (if of_int \<lfloor>arg\<rfloor> = arg
      then (case int64_cast arg of None \<Rightarrow> Inl Undefined | Some i \<Rightarrow> Inr (to_string_int i))
      else Inr (to_string_double arg))"
| "ToString (Suc n) s (StringPtr p) =
     and_then (string_at s p) (\<lambda>str. Inr ([CHR 0x22] @ str @ [CHR 0x22]))"
| "ToString (Suc n) s (FunctionPtr p) = Inr ''function''"
| "ToString (Suc n) s (ListPtr p) =
     and_then (list_at s p) (\<lambda>elements.
     and_then (ToString_elements n s elements) (\<lambda>texts.
       Inr (''['' @ separated '', '' texts @ '']'')))"
| "ToString_elements n s [] = Inr []"
| "ToString_elements n s (v # vs) =
     and_then (ToString n s v) (\<lambda>text.
     and_then (ToString_elements n s vs) (\<lambda>texts. Inr (text # texts)))"

subsection \<open>The C and C++ library\<close>

text \<open>
  Three library routines have results that the language standards leave to the
  implementation; the model takes them as parameters:
  \<^item> \<open>strtod str\<close>: the value \<^verbatim>\<open>strtod\<close> parses (\<open>None\<close> when it is infinite or NaN) and
    the number of characters it consumes;
  \<^item> \<open>rand k\<close>: what the \<open>k\<close>-th call of \<^verbatim>\<open>std::rand\<close> of the process returns;
  \<^item> \<open>std_sort lt xs\<close>: the vector after \<^verbatim>\<open>std::sort\<close> with the comparator \<open>lt\<close>,
    or the exception that a call of the comparator has thrown with the vector as it is then;
  \<^item> \<open>library_what e\<close>: the text of \<^verbatim>\<open>what()\<close> for an exception \<open>e\<close> that the library throws.
\<close>

record library =
  strtod :: "string \<Rightarrow> real option \<times> nat"
  rand :: "nat \<Rightarrow> nat"
  std_sort :: "(val \<Rightarrow> val \<Rightarrow> exn + bool) \<Rightarrow> val list \<Rightarrow> (exn \<times> val list) + val list"
  library_what :: "exn \<Rightarrow> string"

text \<open>\<^verbatim>\<open>::tolower\<close> and \<^verbatim>\<open>::toupper\<close> in the "C" locale.\<close>

definition tolower :: "char \<Rightarrow> char" where
  "tolower c = (if CHR ''A'' \<le> c \<and> c \<le> CHR ''Z'' then char_of (of_char c + (32 :: nat)) else c)"

definition toupper :: "char \<Rightarrow> char" where
  "toupper c = (if CHR ''a'' \<le> c \<and> c \<le> CHR ''z'' then char_of (of_char c - (32 :: nat)) else c)"

definition newline :: char where
  "newline = CHR 0x0A"

text \<open>\<^verbatim>\<open>std::getline\<close>: the line without its newline, and the rest of the stream.\<close>

definition getline :: "string \<Rightarrow> string \<times> string" where
  "getline input =
     (takeWhile (\<lambda>c. c \<noteq> newline) input, drop 1 (dropWhile (\<lambda>c. c \<noteq> newline) input))"

text \<open>\<^verbatim>\<open>source.find(pattern, pos)\<close>, with \<open>None\<close> for \<^verbatim>\<open>npos\<close>.\<close>

definition string_find :: "string \<Rightarrow> string \<Rightarrow> nat \<Rightarrow> nat option" where
  "string_find source pattern pos =
     List.find (\<lambda>i. take (length pattern) (drop i source) = pattern)
       [pos ..< Suc (length source) - length pattern]"

text \<open>\<^verbatim>\<open>str.substr(pos, len)\<close> with both arguments converted from \<^verbatim>\<open>int64_t\<close> to
  \<^verbatim>\<open>size_t\<close>; it throws \<^verbatim>\<open>std::out_of_range\<close> when \<^verbatim>\<open>pos > size()\<close>.\<close>

definition substr :: "string \<Rightarrow> int \<Rightarrow> int \<Rightarrow> exn + string" where
  "substr str pos len =
     (let p = nat (pos mod 2 ^ 64); l = nat (len mod 2 ^ 64)
      in if length str < p then Inl (out_of_range p (length str)) else Inr (take l (drop p str)))"

subsection \<open>Built-in functions\<close>

text \<open>
  Each \<^verbatim>\<open>Execute...\<close> member evaluates its arguments with \<^verbatim>\<open>args()[i]->Calculate(*this)\<close>;
  here \<open>visit\<close> is that call, and \<open>n\<close> is the fuel left for \<^verbatim>\<open>ToString\<close> and for the
  loops of the built-in itself.
\<close>

type_synonym visitor = "node \<Rightarrow> state \<Rightarrow> state outcome"

definition ExecutePrint :: "visitor \<Rightarrow> nat \<Rightarrow> node list \<Rightarrow> state \<Rightarrow> state outcome" where
  "ExecutePrint visit n args s =
     (if length args \<noteq> 1 then throw (runtime_error ''print() requires one argument'') s
      else and_then (visit (hd args) s) (\<lambda>s1.
        case result s1 of
          StringPtr p \<Rightarrow> and_then (string_at s1 p) (\<lambda>str. Inr (s1\<lparr>out := out s1 @ str\<rparr>))
        | v \<Rightarrow> and_then (ToString n s1 v) (\<lambda>text. Inr (s1\<lparr>out := out s1 @ text\<rparr>))))"

definition ExecutePrintln :: "visitor \<Rightarrow> nat \<Rightarrow> node list \<Rightarrow> state \<Rightarrow> state outcome" where
  "ExecutePrintln visit n args s =
     and_then (ExecutePrint visit n args s) (\<lambda>s1. Inr (s1\<lparr>out := out s1 @ [newline]\<rparr>))"

definition ExecuteLen :: "visitor \<Rightarrow> node list \<Rightarrow> state \<Rightarrow> state outcome" where
  "ExecuteLen visit args s =
     (if length args \<noteq> 1 then throw (runtime_error ''len() requires one argument'') s
      else and_then (visit (hd args) s) (\<lambda>s1.
        case result s1 of
          StringPtr p \<Rightarrow>
            and_then (string_at s1 p) (\<lambda>v. Inr (s1\<lparr>result := Number (real (length v))\<rparr>))
        | ListPtr p \<Rightarrow>
            and_then (list_at s1 p) (\<lambda>v. Inr (s1\<lparr>result := Number (real (length v))\<rparr>))
        | _ \<Rightarrow> throw (runtime_error ''len() can be applied only to the iterable object'') s1))"

definition ExecuteRead :: "state \<Rightarrow> state outcome" where
  "ExecuteRead s =
     (case getline (inp s) of (input, rest) \<Rightarrow> Inr (make_shared_string input (s\<lparr>inp := rest\<rparr>)))"

fun stack_trace :: "nat \<Rightarrow> state \<Rightarrow> (string \<times> val) list \<Rightarrow> string outcome" where
  "stack_trace n s [] = Inr []"
| "stack_trace n s ((f, v) # rest) =
     and_then (ToString n s v) (\<lambda>text.
     and_then (stack_trace n s rest) (\<lambda>more.
       Inr (''variable name: '' @ f @ '', value: '' @ text @ [newline] @ more)))"

definition ExecuteStackTrace :: "nat \<Rightarrow> state \<Rightarrow> state outcome" where
  "ExecuteStackTrace n s =
     (case scopes s of
        [] \<Rightarrow> Inr (make_shared_string ''Empty trace'' s)
      | scope # _ \<Rightarrow>
          and_then (stack_trace n s scope) (\<lambda>text. Inr (make_shared_string text s)))"

definition ExecuteLower :: "visitor \<Rightarrow> node list \<Rightarrow> state \<Rightarrow> state outcome" where
  "ExecuteLower visit args s =
     (if length args \<noteq> 1 then throw (runtime_error ''lower() requires one argument'') s
      else and_then (visit (hd args) s) (\<lambda>s1.
        case result s1 of
          StringPtr p \<Rightarrow>
            and_then (string_at s1 p) (\<lambda>arg. Inr (make_shared_string (map tolower arg) s1))
        | _ \<Rightarrow> throw (runtime_error ''lower() can be applied only to the string'') s1))"

definition ExecuteUpper :: "visitor \<Rightarrow> node list \<Rightarrow> state \<Rightarrow> state outcome" where
  "ExecuteUpper visit args s =
     (if length args \<noteq> 1 then throw (runtime_error ''upper() requires one argument'') s
      else and_then (visit (hd args) s) (\<lambda>s1.
        case result s1 of
          StringPtr p \<Rightarrow>
            and_then (string_at s1 p) (\<lambda>arg. Inr (make_shared_string (map toupper arg) s1))
        | _ \<Rightarrow> throw (runtime_error ''upper() can be applied only to the string'') s1))"

text \<open>
  \<^verbatim>\<open>std::move(*std::get<StringPtr>(result_))\<close> in \<^verbatim>\<open>ExecuteJoin\<close> and \<^verbatim>\<open>ExecuteSplit\<close>
  moves the characters out of the shared string, which every holder of the pointer then
  sees empty (the state libstdc++ and libc++ leave a moved-from string in).
\<close>

definition move_string :: "nat \<Rightarrow> state \<Rightarrow> (string \<times> state) outcome" where
  "move_string p s =
     and_then (string_at s p) (\<lambda>str. Inr (str, s\<lparr>string_heap := (string_heap s)[p := []]\<rparr>))"

fun join_texts :: "nat \<Rightarrow> state \<Rightarrow> val list \<Rightarrow> string list outcome" where
  "join_texts n s [] = Inr []"
| "join_texts n s (v # vs) =
     and_then (case v of StringPtr p \<Rightarrow> string_at s p | _ \<Rightarrow> ToString n s v) (\<lambda>text.
     and_then (join_texts n s vs) (\<lambda>texts. Inr (text # texts)))"

definition ExecuteJoin :: "visitor \<Rightarrow> nat \<Rightarrow> node list \<Rightarrow> state \<Rightarrow> state outcome" where
  "ExecuteJoin visit n args s =
     (if length args \<noteq> 2 then throw (runtime_error ''join() requires two arguments'') s
      else and_then (visit (args ! 0) s) (\<lambda>s1.
        case result s1 of
          ListPtr list \<Rightarrow>
            and_then (visit (args ! 1) s1) (\<lambda>s2.
              case result s2 of
                StringPtr d \<Rightarrow>
                  and_then (move_string d s2) (\<lambda>(delimiter, s3).
                  and_then (list_at s3 list) (\<lambda>elements.
                  and_then (join_texts n s3 elements) (\<lambda>texts.
                    Inr (make_shared_string (separated delimiter texts) s3))))
              | _ \<Rightarrow> throw bad_variant_access s2)
        | _ \<Rightarrow> throw (runtime_error ''all arguments of join() must be lists'') s1))"

fun split_loop :: "nat \<Rightarrow> string \<Rightarrow> string \<Rightarrow> nat \<Rightarrow> string list outcome" where
  "split_loop 0 source_str delimiter start = Inl OutOfFuel"
| "split_loop (Suc n) source_str delimiter start =
     (case string_find source_str delimiter start of
        None \<Rightarrow> Inr [drop start source_str]
      | Some finish \<Rightarrow>
          and_then (split_loop n source_str delimiter (finish + length delimiter)) (\<lambda>parts.
            Inr (take (finish - start) (drop start source_str) # parts)))"

definition make_shared_strings :: "string list \<Rightarrow> state \<Rightarrow> val list \<times> state" where
  "make_shared_strings parts s =
     (map StringPtr [length (string_heap s) ..< length (string_heap s) + length parts],
      s\<lparr>string_heap := string_heap s @ parts\<rparr>)"

definition ExecuteSplit :: "visitor \<Rightarrow> nat \<Rightarrow> node list \<Rightarrow> state \<Rightarrow> state outcome" where
  "ExecuteSplit visit n args s =
     (if length args \<noteq> 2 then throw (runtime_error ''split() requires two arguments'') s
      else and_then (visit (args ! 0) s) (\<lambda>s1.
        case result s1 of
          StringPtr p \<Rightarrow>
            and_then (move_string p s1) (\<lambda>(source_str, s2).
            and_then (visit (args ! 1) s2) (\<lambda>s3.
              case result s3 of
                StringPtr q \<Rightarrow>
                  and_then (move_string q s3) (\<lambda>(delimiter, s4).
                  and_then (split_loop n source_str delimiter 0) (\<lambda>parts.
                    case make_shared_strings parts s4 of
                      (elements, s5) \<Rightarrow> Inr (make_shared_List elements s5)))
              | _ \<Rightarrow> throw (runtime_error ''all arguments of split() must be strings'') s3))
        | _ \<Rightarrow> throw (runtime_error ''all arguments of split() must be strings'') s1))"

fun range_loop :: "nat \<Rightarrow> real \<Rightarrow> real \<Rightarrow> real \<Rightarrow> val list outcome" where
  "range_loop 0 i finish step = Inl OutOfFuel"
| "range_loop (Suc n) i finish step =
     (if (if 0 < step then i < finish else finish < i)
      then and_then (range_loop n (i + step) finish step) (\<lambda>sequence. Inr (Number i # sequence))
      else Inr [])"

definition number_argument :: "string \<Rightarrow> state \<Rightarrow> real outcome" where
  "number_argument message s =
     (case result s of Number x \<Rightarrow> Inr x | _ \<Rightarrow> throw (runtime_error message) s)"

definition list_argument :: "string \<Rightarrow> state \<Rightarrow> nat outcome" where
  "list_argument message s =
     (case result s of ListPtr p \<Rightarrow> Inr p | _ \<Rightarrow> throw (runtime_error message) s)"

definition string_argument :: "string \<Rightarrow> state \<Rightarrow> string outcome" where
  "string_argument message s =
     (case result s of StringPtr p \<Rightarrow> string_at s p | _ \<Rightarrow> throw (runtime_error message) s)"

definition ExecuteRange :: "visitor \<Rightarrow> nat \<Rightarrow> node list \<Rightarrow> state \<Rightarrow> state outcome" where
  "ExecuteRange visit n args s =
     (if length args \<noteq> 3 then throw (runtime_error ''range() requires three arguments'') s
      else
        and_then (visit (args ! 0) s) (\<lambda>s1.
        and_then (number_argument ''all arguments of range() must be numbers'' s1) (\<lambda>start.
        and_then (visit (args ! 1) s1) (\<lambda>s2.
        and_then (number_argument ''all arguments of range() must be numbers'' s2) (\<lambda>finish.
        and_then (visit (args ! 2) s2) (\<lambda>s3.
        and_then (number_argument ''all arguments of range() must be numbers'' s3) (\<lambda>step.
          if step = 0 then throw (runtime_error ''Step of range() must be non-zero'') s3
          else if 0 < step \<and> finish \<le> start
          then throw (runtime_error
                 ''Start of range() must be less than end if step is positive'') s3
          else if step < 0 \<and> start \<le> finish
          then throw (runtime_error
                 ''Start of range() must be greater than end if step is negative'') s3
          else and_then (range_loop n start finish step) (\<lambda>sequence.
                 Inr (make_shared_List sequence s3)))))))))"

definition ExecutePush :: "visitor \<Rightarrow> node list \<Rightarrow> state \<Rightarrow> state outcome" where
  "ExecutePush visit args s =
     (if length args \<noteq> 2 then throw (runtime_error ''Push() requires two arguments'') s
      else
        and_then (visit (args ! 0) s) (\<lambda>s1.
        and_then (list_argument ''First argument of push() must be list'' s1) (\<lambda>list.
        and_then (visit (args ! 1) s1) (\<lambda>s2.
        and_then (list_at s2 list) (\<lambda>elements.
          Inr (s2\<lparr>list_heap := (list_heap s2)[list := elements @ [result s2]],
                  result := ListPtr list\<rparr>))))))"

definition ExecutePop :: "visitor \<Rightarrow> node list \<Rightarrow> state \<Rightarrow> state outcome" where
  "ExecutePop visit args s =
     (if length args \<noteq> 1 then throw (runtime_error ''Pop() requires one arguments'') s
      else
        and_then (visit (args ! 0) s) (\<lambda>s1.
        and_then (list_argument ''Argument of pop() must be list'' s1) (\<lambda>list.
        and_then (list_at s1 list) (\<lambda>elements.
          if elements = [] then throw (runtime_error ''Can not pop from empty list'') s1
          else Inr (s1\<lparr>list_heap := (list_heap s1)[list := butlast elements]\<rparr>)))))"

text \<open>\<^verbatim>\<open>elements.insert(elements.begin() + index, v)\<close> is undefined past the end.\<close>

definition ExecuteInsert :: "visitor \<Rightarrow> node list \<Rightarrow> state \<Rightarrow> state outcome" where
  "ExecuteInsert visit args s =
     (if length args \<noteq> 3 then throw (runtime_error ''Insert() requires three arguments'') s
      else
        and_then (visit (args ! 0) s) (\<lambda>s1.
        and_then (list_argument ''First argument of insert() must be list'' s1) (\<lambda>list.
        and_then (visit (args ! 1) s1) (\<lambda>s2.
        and_then (number_argument ''Second argument of insert() must be number'' s2) (\<lambda>x.
          case size_t_cast x of
            None \<Rightarrow> Inl Undefined
          | Some index \<Rightarrow>
              and_then (visit (args ! 2) s2) (\<lambda>s3.
              and_then (list_at s3 list) (\<lambda>elements.
                if length elements < index then Inl Undefined
                else Inr (s3\<lparr>list_heap := (list_heap s3)
                                [list := take index elements @ [result s3] @ drop index elements],
                             result := ListPtr list\<rparr>))))))))"

definition ExecuteRemove :: "visitor \<Rightarrow> node list \<Rightarrow> state \<Rightarrow> state outcome" where
  "ExecuteRemove visit args s =
     (if length args \<noteq> 2 then throw (runtime_error ''Remove() requires two arguments'') s
      else
        and_then (visit (args ! 0) s) (\<lambda>s1.
        and_then (list_argument ''First argument of remove() must be list'' s1) (\<lambda>list.
        and_then (visit (args ! 1) s1) (\<lambda>s2.
        and_then (number_argument ''Second argument of remove() must be number'' s2) (\<lambda>x.
          case size_t_cast x of
            None \<Rightarrow> Inl Undefined
          | Some index \<Rightarrow>
              and_then (list_at s2 list) (\<lambda>elements.
                if length elements \<le> index
                then throw (runtime_error ''Index is out of range when removing from list'') s2
                else Inr (s2\<lparr>list_heap := (list_heap s2)
                                [list := take index elements @ drop (Suc index) elements],
                             result := ListPtr list\<rparr>)))))))"

text \<open>The comparator that \<^verbatim>\<open>ExecuteSort\<close> passes to \<^verbatim>\<open>std::sort\<close>.\<close>

definition sort_less :: "state \<Rightarrow> val \<Rightarrow> val \<Rightarrow> exn + bool" where
  "sort_less s lhs rhs =
     (case (lhs, rhs) of
        (StringPtr a, StringPtr b) \<Rightarrow> Inr (string_heap s ! a < string_heap s ! b)
      | (ListPtr a, ListPtr b) \<Rightarrow> Inr (length (list_heap s ! a) < length (list_heap s ! b))
      | (Number a, Number b) \<Rightarrow> Inr (a < b)
      | (Monostate, Monostate) \<Rightarrow> Inr True
      | (FunctionPtr a, FunctionPtr b) \<Rightarrow>
          Inl (runtime_error ''sort() can not be applied to the list of the function'')
      | _ \<Rightarrow> Inl (runtime_error ''sort() can be applied only to the list of the same type''))"

fun valid_pointer :: "state \<Rightarrow> val \<Rightarrow> bool" where
  "valid_pointer s (StringPtr p) = (p < length (string_heap s))"
| "valid_pointer s (ListPtr p) = (p < length (list_heap s))"
| "valid_pointer s v = True"

definition ExecuteSort :: "library \<Rightarrow> visitor \<Rightarrow> node list \<Rightarrow> state \<Rightarrow> state outcome" where
  "ExecuteSort L visit args s =
     (if length args \<noteq> 1 then throw (runtime_error ''sort() requires one argument'') s
      else
        and_then (visit (args ! 0) s) (\<lambda>s1.
        and_then (list_argument ''Argument of sort() must be list'' s1) (\<lambda>list.
        and_then (list_at s1 list) (\<lambda>elements.
          if \<not> list_all (valid_pointer s1) elements then Inl Undefined
          else case std_sort L (sort_less s1) elements of
            Inl (e, permuted) \<Rightarrow> throw e (s1\<lparr>list_heap := (list_heap s1)[list := permuted]\<rparr>)
          | Inr ordered \<Rightarrow>
              Inr (s1\<lparr>list_heap := (list_heap s1)[list := ordered], result := ListPtr list\<rparr>)))))"

text \<open>The loop of \<^verbatim>\<open>ExecuteSlice\<close> over \<^verbatim>\<open>args()[1..]\<close>.\<close>

fun slice_indices :: "visitor \<Rightarrow> node list \<Rightarrow> state \<Rightarrow> (int list \<times> state) outcome" where
  "slice_indices visit [] s = Inr ([], s)"
| "slice_indices visit (a # rest) s =
     and_then (visit a s) (\<lambda>s1.
     and_then (number_argument ''All arguments of slice() must be numbers'' s1) (\<lambda>x.
       case int64_cast x of
         None \<Rightarrow> Inl Undefined
       | Some i \<Rightarrow>
           and_then (slice_indices visit rest s1) (\<lambda>(indices, s2). Inr (i # indices, s2))))"

text \<open>\<^verbatim>\<open>List::GetElement\<close>. The first comparison is between \<^verbatim>\<open>int64_t\<close> and \<^verbatim>\<open>size_t\<close>, so
  the index is converted to \<^verbatim>\<open>size_t\<close> for it.\<close>

definition GetElement :: "val list \<Rightarrow> int \<Rightarrow> state \<Rightarrow> val outcome" where
  "GetElement elements index s =
     (let size = int (length elements)
      in if size \<le> index mod 2 ^ 64 \<or> index < - size
         then throw (runtime_error ''Index is out of range when getting element from list'') s
         else let i = (if index < 0 then index + size else index)
              in if 0 \<le> i \<and> i < size then Inr (elements ! nat i) else Inl Undefined)"

text \<open>\<^verbatim>\<open>List::GetSublist\<close>: its loop reads \<^verbatim>\<open>elements[i]\<close> unchecked and only then tests
  whether to stop.\<close>

fun sublist_loop :: "nat \<Rightarrow> val list \<Rightarrow> int \<Rightarrow> int \<Rightarrow> int \<Rightarrow> val list outcome" where
  "sublist_loop 0 elements i finish step = Inl OutOfFuel"
| "sublist_loop (Suc n) elements i finish step =
     (if i < 0 \<or> int (length elements) \<le> i then Inl Undefined
      else if (step < 0 \<and> i \<le> finish) \<or> (0 < step \<and> finish \<le> i) then Inr [elements ! nat i]
      else and_then (sublist_loop n elements (i + step) finish step) (\<lambda>rest.
             Inr (elements ! nat i # rest)))"

definition GetSublist :: "nat \<Rightarrow> val list \<Rightarrow> int \<Rightarrow> int \<Rightarrow> int \<Rightarrow> val list outcome" where
  "GetSublist n elements start finish step =
     (if 0 < start \<and> finish < 0 then Inr []
      else if start < 0 \<and> 0 < finish then Inr []
      else let size = int (length elements)
           in sublist_loop n elements
                (if start < 0 then start + size else start)
                (if finish < 0 then finish + size else finish) step)"

text \<open>Subtraction of two \<^verbatim>\<open>int64_t\<close>; signed overflow is undefined.\<close>

definition minus_int64 :: "int \<Rightarrow> int \<Rightarrow> int option" where
  "minus_int64 a b = (let r = a - b in if - (2 ^ 63) \<le> r \<and> r < 2 ^ 63 then Some r else None)"

definition slice_string :: "string \<Rightarrow> int \<Rightarrow> int option \<Rightarrow> state \<Rightarrow> state outcome" where
  "slice_string str pos len s =
     (case len of
        None \<Rightarrow> Inl Undefined
      | Some l \<Rightarrow>
          (case substr str pos l of
             Inl e \<Rightarrow> throw e s
           | Inr piece \<Rightarrow> Inr (make_shared_string piece s)))"

definition slice_list :: "nat \<Rightarrow> val list \<Rightarrow> int \<Rightarrow> int option \<Rightarrow> int \<Rightarrow> state \<Rightarrow> state outcome" where
  "slice_list n elements start finish step s =
     (case finish of
        None \<Rightarrow> Inl Undefined
      | Some e \<Rightarrow>
          and_then (GetSublist n elements start e step) (\<lambda>sub. Inr (make_shared_List sub s)))"

definition ExecuteSlice :: "visitor \<Rightarrow> nat \<Rightarrow> node list \<Rightarrow> state \<Rightarrow> state outcome" where
  "ExecuteSlice visit n args s =
     (case args of
        [] \<Rightarrow> Inl Undefined
      | target # rest \<Rightarrow>
          and_then (visit target s) (\<lambda>s1.
            if \<not> HoldsIterable (result s1)
            then throw (runtime_error ''Slice can be applied only to the iterable object'') s1
            else
              and_then (slice_indices visit rest s1) (\<lambda>(indices, s2).
                case result s1 of
                  ListPtr list \<Rightarrow>
                    and_then (list_at s2 list) (\<lambda>elements.
                      case indices of
                        [i] \<Rightarrow> and_then (GetElement elements i s2) (\<lambda>v. Inr (s2\<lparr>result := v\<rparr>))
                      | [i, j] \<Rightarrow> slice_list n elements i (minus_int64 j 1) 1 s2
                      | [i, j, k] \<Rightarrow> slice_list n elements i (minus_int64 j 1) k s2
                      | _ \<Rightarrow>
                          throw (runtime_error ''Incorrect number of arguments in slice'') s2)
                | StringPtr p \<Rightarrow>
                    and_then (string_at s2 p) (\<lambda>str.
                      case indices of
                        [i] \<Rightarrow> slice_string str i (Some 1) s2
                      | [i, j] \<Rightarrow> slice_string str i (minus_int64 j i) s2
                      | [i, j, k] \<Rightarrow> slice_string str i (minus_int64 j i) s2
                      | _ \<Rightarrow>
                          throw (runtime_error ''Incorrect number of arguments in slice'') s2)
                | _ \<Rightarrow> Inl Undefined)))"

fun replace_loop :: "nat \<Rightarrow> string \<Rightarrow> string \<Rightarrow> string \<Rightarrow> nat option \<Rightarrow> string outcome" where
  "replace_loop 0 source_str old_str new_str position = Inl OutOfFuel"
| "replace_loop (Suc n) source_str old_str new_str None = Inr source_str"
| "replace_loop (Suc n) source_str old_str new_str (Some pos) =
     (let replaced = take pos source_str @ new_str @ drop (pos + length old_str) source_str
      in replace_loop n replaced old_str new_str
           (string_find replaced old_str (pos + length new_str)))"

definition ExecuteReplace :: "visitor \<Rightarrow> nat \<Rightarrow> node list \<Rightarrow> state \<Rightarrow> state outcome" where
  "ExecuteReplace visit n args s =
     (if length args \<noteq> 3 then throw (runtime_error ''replace() requires three arguments'') s
      else
        and_then (visit (args ! 0) s) (\<lambda>s1.
        and_then (string_argument ''all arguments of replace() must be strings'' s1) (\<lambda>source_str.
        and_then (visit (args ! 1) s1) (\<lambda>s2.
        and_then (string_argument ''all arguments of replace() must be strings'' s2) (\<lambda>old_str.
        and_then (visit (args ! 2) s2) (\<lambda>s3.
        and_then (string_argument ''all arguments of replace() must be strings'' s3) (\<lambda>new_str.
        and_then (replace_loop n source_str old_str new_str (string_find source_str old_str 0))
          (\<lambda>replaced. Inr (make_shared_string replaced s3)))))))))"

text \<open>\<^verbatim>\<open>ExecuteCapitalize\<close> writes through the pointer; \<^verbatim>\<open>front()\<close> of an empty string is
  undefined.\<close>

definition ExecuteCapitalize :: "visitor \<Rightarrow> node list \<Rightarrow> state \<Rightarrow> state outcome" where
  "ExecuteCapitalize visit args s =
     (if length args \<noteq> 1 then throw (runtime_error ''capitalize() requires one argument'') s
      else and_then (visit (hd args) s) (\<lambda>s1.
        case result s1 of
          StringPtr p \<Rightarrow>
            and_then (string_at s1 p) (\<lambda>arg.
              case arg of
                [] \<Rightarrow> Inl Undefined
              | c # cs \<Rightarrow> Inr (s1\<lparr>string_heap := (string_heap s1)[p := toupper c # cs]\<rparr>))
        | _ \<Rightarrow> throw (runtime_error ''capitalize() can be applied only to the string'') s1))"

definition ExecuteOperationForNumber ::
  "visitor \<Rightarrow> string \<Rightarrow> (real \<Rightarrow> real option) \<Rightarrow> node list \<Rightarrow> state \<Rightarrow> state outcome" where
  "ExecuteOperationForNumber visit function_name operation args s =
     (if length args \<noteq> 1
      then throw (runtime_error (function_name @ ''() requires one argument'')) s
      else and_then (visit (hd args) s) (\<lambda>s1.
        case result s1 of
          Number arg \<Rightarrow>
            (case operation arg of
               None \<Rightarrow> Inl Unmodelled
             | Some r \<Rightarrow> Inr (s1\<lparr>result := Number r\<rparr>))
        | _ \<Rightarrow>
            throw (runtime_error (function_name @ ''() can be applied only to the number'')) s1))"

definition std_sqrt :: "real \<Rightarrow> real option" where
  "std_sqrt x = (if x < 0 then None else Some (sqrt x))"

text \<open>\<^verbatim>\<open>std::round\<close> rounds halfway cases away from zero.\<close>

definition std_round :: "real \<Rightarrow> real" where
  "std_round x = (if 0 \<le> x then of_int \<lfloor>x + 1 / 2\<rfloor> else of_int \<lceil>x - 1 / 2\<rceil>)"

definition ExecuteAbs :: "visitor \<Rightarrow> node list \<Rightarrow> state \<Rightarrow> state outcome" where
  "ExecuteAbs visit = ExecuteOperationForNumber visit ''abs'' (\<lambda>x. Some \<bar>x\<bar>)"

definition ExecuteSqrt :: "visitor \<Rightarrow> node list \<Rightarrow> state \<Rightarrow> state outcome" where
  "ExecuteSqrt visit = ExecuteOperationForNumber visit ''sqrt'' std_sqrt"

definition ExecuteCeil :: "visitor \<Rightarrow> node list \<Rightarrow> state \<Rightarrow> state outcome" where
  "ExecuteCeil visit = ExecuteOperationForNumber visit ''ceil'' (\<lambda>x. Some (of_int \<lceil>x\<rceil>))"

definition ExecuteFloor :: "visitor \<Rightarrow> node list \<Rightarrow> state \<Rightarrow> state outcome" where
  "ExecuteFloor visit = ExecuteOperationForNumber visit ''floor'' (\<lambda>x. Some (of_int \<lfloor>x\<rfloor>))"

definition ExecuteRound :: "visitor \<Rightarrow> node list \<Rightarrow> state \<Rightarrow> state outcome" where
  "ExecuteRound visit = ExecuteOperationForNumber visit ''round'' (\<lambda>x. Some (std_round x))"

text \<open>\<^verbatim>\<open>ExecuteRnd\<close> is \<^verbatim>\<open>ExecuteOperationForNumber\<close> with an operation that ignores its
  argument and calls \<^verbatim>\<open>std::rand\<close>.\<close>

definition ExecuteRnd :: "library \<Rightarrow> visitor \<Rightarrow> node list \<Rightarrow> state \<Rightarrow> state outcome" where
  "ExecuteRnd L visit args s =
     (if length args \<noteq> 1 then throw (runtime_error ''rnd() requires one argument'') s
      else and_then (visit (hd args) s) (\<lambda>s1.
        case result s1 of
          Number arg \<Rightarrow>
            Inr (s1\<lparr>result := Number (real (rand L (rand_calls s1))),
                    rand_calls := Suc (rand_calls s1)\<rparr>)
        | _ \<Rightarrow> throw (runtime_error ''rnd() can be applied only to the number'') s1))"

text \<open>\<^verbatim>\<open>strtod\<close> reads the C string, which ends at the first zero byte.\<close>

definition ExecuteParseNumber :: "library \<Rightarrow> visitor \<Rightarrow> node list \<Rightarrow> state \<Rightarrow> state outcome" where
  "ExecuteParseNumber L visit args s =
     (if length args \<noteq> 1 then throw (runtime_error ''parse_number() requires one argument'') s
      else and_then (visit (hd args) s) (\<lambda>s1.
        case result s1 of
          StringPtr p \<Rightarrow>
            and_then (string_at s1 p) (\<lambda>arg.
              case strtod L (takeWhile (\<lambda>c. c \<noteq> CHR 0x00) arg) of
                (parsed_number, consumed) \<Rightarrow>
                  if consumed \<noteq> length arg then Inr (s1\<lparr>result := Monostate\<rparr>)
                  else (case parsed_number of
                          None \<Rightarrow> Inl Unmodelled
                        | Some x \<Rightarrow> Inr (s1\<lparr>result := Number x\<rparr>)))
        | _ \<Rightarrow> Inr (s1\<lparr>result := Monostate\<rparr>)))"

definition ExecuteToString :: "visitor \<Rightarrow> nat \<Rightarrow> node list \<Rightarrow> state \<Rightarrow> state outcome" where
  "ExecuteToString visit n args s =
     (if length args \<noteq> 1 then throw (runtime_error ''to_string() requires one argument'') s
      else and_then (visit (hd args) s) (\<lambda>s1.
        and_then (ToString n s1 (result s1)) (\<lambda>text. Inr (make_shared_string text s1))))"

text \<open>The \<^verbatim>\<open>switch\<close> of \<^verbatim>\<open>Visit(GlobalFunctionNode&)\<close>.\<close>

definition ExecuteGlobal ::
  "library \<Rightarrow> visitor \<Rightarrow> nat \<Rightarrow> Name \<Rightarrow> node list \<Rightarrow> state \<Rightarrow> state outcome" where
  "ExecuteGlobal L visit n name args s =
     (case name of
        kPrint \<Rightarrow> ExecutePrint visit n args s
      | kPrintln \<Rightarrow> ExecutePrintln visit n args s
      | kLen \<Rightarrow> ExecuteLen visit args s
      | kRead \<Rightarrow> ExecuteRead s
      | kStackTrace \<Rightarrow> ExecuteStackTrace n s
      | kLower \<Rightarrow> ExecuteLower visit args s
      | kUpper \<Rightarrow> ExecuteUpper visit args s
      | kSplit \<Rightarrow> ExecuteSplit visit n args s
      | kJoin \<Rightarrow> ExecuteJoin visit n args s
      | kReplace \<Rightarrow> ExecuteReplace visit n args s
      | kCapitalize \<Rightarrow> ExecuteCapitalize visit args s
      | kAbs \<Rightarrow> ExecuteAbs visit args s
      | kSqrt \<Rightarrow> ExecuteSqrt visit args s
      | kCeil \<Rightarrow> ExecuteCeil visit args s
      | kFloor \<Rightarrow> ExecuteFloor visit args s
      | kRound \<Rightarrow> ExecuteRound visit args s
      | kRnd \<Rightarrow> ExecuteRnd L visit args s
      | kParseNumber \<Rightarrow> ExecuteParseNumber L visit args s
      | kToString \<Rightarrow> ExecuteToString visit n args s
      | kRange \<Rightarrow> ExecuteRange visit n args s
      | kPush \<Rightarrow> ExecutePush visit args s
      | kPop \<Rightarrow> ExecutePop visit args s
      | kInsert \<Rightarrow> ExecuteInsert visit args s
      | kRemove \<Rightarrow> ExecuteRemove visit args s
      | kSort \<Rightarrow> ExecuteSort L visit args s
      | kSlice \<Rightarrow> ExecuteSlice visit n args s)"

subsection \<open>The visitor\<close>

definition quoted :: "string \<Rightarrow> string" where
  "quoted name = [CHR 0x27] @ name @ [CHR 0x27]"

text \<open>
  The loops of the \<^verbatim>\<open>Visit\<close> members. As in the built-ins, \<open>visit\<close> stands for
  \<^verbatim>\<open>statement->Calculate(*this)\<close>.
\<close>

text \<open>The loop of \<^verbatim>\<open>Visit(ListLiteralNode&)\<close>.\<close>

fun list_elements :: "visitor \<Rightarrow> node list \<Rightarrow> state \<Rightarrow> (val list \<times> state) outcome" where
  "list_elements visit [] s = Inr ([], s)"
| "list_elements visit (element # rest) s =
     and_then (visit element s) (\<lambda>s1.
     and_then (list_elements visit rest s1) (\<lambda>(vs, s2). Inr (result s1 # vs, s2)))"

text \<open>\<^verbatim>\<open>ExecuteStatements\<close>; \<^verbatim>\<open>Visit(WhileNode&)\<close> and the list branch of
  \<^verbatim>\<open>Visit(ForNode&)\<close> write the same loop out.\<close>

fun ExecuteStatements :: "visitor \<Rightarrow> node list \<Rightarrow> state \<Rightarrow> state outcome" where
  "ExecuteStatements visit [] s = Inr s"
| "ExecuteStatements visit (statement # rest) s =
     and_then (visit statement s) (\<lambda>s1.
       if control_flow s1 \<noteq> kDefault then Inr s1 else ExecuteStatements visit rest s1)"

text \<open>The two loops of \<^verbatim>\<open>Visit(FunctionCallNode&)\<close> and \<^verbatim>\<open>Visit(UnnamedFunctionCallNode&)\<close>:
  over \<^verbatim>\<open>arg_names()\<close>, reading \<^verbatim>\<open>node.args()[i]\<close> unchecked, and over the body.\<close>

fun call_arguments :: "visitor \<Rightarrow> string list \<Rightarrow> node list \<Rightarrow> state \<Rightarrow> state outcome" where
  "call_arguments visit [] args s = Inr s"
| "call_arguments visit (name # names) [] s = Inl Undefined"
| "call_arguments visit (name # names) (arg # args) s =
     and_then (visit arg s) (\<lambda>s1.
     and_then (SetVariable name (result s1) s1) (\<lambda>s2.
       call_arguments visit names args s2))"

fun call_body :: "visitor \<Rightarrow> node list \<Rightarrow> state \<Rightarrow> state outcome" where
  "call_body visit [] s = Inr s"
| "call_body visit (statement # rest) s =
     and_then (visit statement s) (\<lambda>s1.
       if control_flow s1 = kReturn then Inr s1 else call_body visit rest s1)"

text \<open>The loop of \<^verbatim>\<open>Visit(RootNode&)\<close>.\<close>

fun root_statements :: "visitor \<Rightarrow> node list \<Rightarrow> state \<Rightarrow> state outcome" where
  "root_statements visit [] s = Inr s"
| "root_statements visit (statement # rest) s =
     and_then (visit statement s) (\<lambda>s1. root_statements visit rest s1)"

text \<open>What \<^verbatim>\<open>Visit(WhileNode&)\<close> and the list branch of \<^verbatim>\<open>Visit(ForNode&)\<close> do with the
  flag after \<^verbatim>\<open>PopScope()\<close>: \<^verbatim>\<open>kDefault\<close> stays, \<^verbatim>\<open>kReturn\<close> stays, anything else becomes
  \<^verbatim>\<open>kDefault\<close>; then the loop goes on.\<close>

definition after_iteration :: "state \<Rightarrow> state" where
  "after_iteration s =
     (if control_flow s = kDefault then s
      else if control_flow s \<noteq> kReturn then s\<lparr>control_flow := kDefault\<rparr>
      else s)"

text \<open>\<^verbatim>\<open>while (true)\<close> of \<^verbatim>\<open>Visit(WhileNode&)\<close>; the fuel bounds the number of iterations.\<close>

fun while_loop :: "visitor \<Rightarrow> nat \<Rightarrow> node \<Rightarrow> node list \<Rightarrow> state \<Rightarrow> state outcome" where
  "while_loop visit 0 condition statements s = Inl OutOfFuel"
| "while_loop visit (Suc n) condition statements s =
     and_then (visit condition s) (\<lambda>s1.
     and_then (GetBool s1 (result s1)) (\<lambda>c.
       if \<not> c then Inr s1
       else
         and_then (ExecuteStatements visit statements (PushScope s1)) (\<lambda>s2.
           while_loop visit n condition statements (after_iteration (PopScope s2)))))"

text \<open>
  The range-based loops of \<^verbatim>\<open>Visit(ForNode&)\<close> over the list or string at address \<open>p\<close>:
  \<open>i\<close> is the position of the iterator and the second number counts the elements up to
  the \<^verbatim>\<open>end()\<close> taken when the loop started. Each element is read from the heap as it is
  when its iteration starts; reading past the current end is undefined.
\<close>

fun for_list ::
  "visitor \<Rightarrow> string \<Rightarrow> nat \<Rightarrow> nat \<Rightarrow> nat \<Rightarrow> node list \<Rightarrow> state \<Rightarrow> state outcome" where
  "for_list visit iterable_name p i 0 statements s = Inr s"
| "for_list visit iterable_name p i (Suc remaining) statements s =
     and_then (list_at s p) (\<lambda>elements.
       if length elements \<le> i then Inl Undefined
       else
         and_then (SetVariable iterable_name (elements ! i) (PushScope s)) (\<lambda>s1.
         and_then (ExecuteStatements visit statements s1) (\<lambda>s2.
           for_list visit iterable_name p (Suc i) remaining statements
             (after_iteration (PopScope s2)))))"

text \<open>The statement loop of the string branch; the \<open>bool\<close> says that it left
  \<^verbatim>\<open>Visit(ForNode&)\<close> by \<^verbatim>\<open>return\<close>.\<close>

fun for_string_body :: "visitor \<Rightarrow> node list \<Rightarrow> state \<Rightarrow> (bool \<times> state) outcome" where
  "for_string_body visit [] s = Inr (False, s)"
| "for_string_body visit (statement # rest) s =
     and_then (visit statement s) (\<lambda>s1.
       if control_flow s1 = kBreak then Inr (False, s1\<lparr>control_flow := kDefault\<rparr>)
       else if control_flow s1 = kContinue
       then for_string_body visit rest (s1\<lparr>control_flow := kDefault\<rparr>)
       else if control_flow s1 = kReturn then Inr (True, s1)
       else for_string_body visit rest s1)"

fun for_string ::
  "visitor \<Rightarrow> string \<Rightarrow> nat \<Rightarrow> nat \<Rightarrow> nat \<Rightarrow> node list \<Rightarrow> state \<Rightarrow> state outcome" where
  "for_string visit iterable_name p i 0 statements s = Inr s"
| "for_string visit iterable_name p i (Suc remaining) statements s =
     and_then (string_at s p) (\<lambda>str.
       if length str \<le> i then Inl Undefined
       else
         let s0 = PushScope s;
             c = StringPtr (length (string_heap s0));
             s1 = s0\<lparr>string_heap := string_heap s0 @ [[str ! i]]\<rparr>
         in
           and_then (SetVariable iterable_name c s1) (\<lambda>s2.
           and_then (for_string_body visit statements s2) (\<lambda>(returned, s3).
             if returned then Inr s3
             else for_string visit iterable_name p (Suc i) remaining statements (PopScope s3))))"

text \<open>The tail shared by \<^verbatim>\<open>CalculateUnaryMinus\<close>, \<^verbatim>\<open>CalculateUnaryPlus\<close> and
  \<^verbatim>\<open>CalculateLogicalNot\<close>: each evaluates \<^verbatim>\<open>node.arg()\<close> itself.\<close>

definition CalculateUnaryMinus :: "visitor \<Rightarrow> node \<Rightarrow> state \<Rightarrow> state outcome" where
  "CalculateUnaryMinus visit arg s =
     and_then (visit arg s) (\<lambda>s1.
       case result s1 of
         Number x \<Rightarrow> Inr (s1\<lparr>result := Number (- x)\<rparr>)
       | _ \<Rightarrow> throw (runtime_error ''Unary minus can be applied only to the number'') s1)"

definition CalculateUnaryPlus :: "visitor \<Rightarrow> node \<Rightarrow> state \<Rightarrow> state outcome" where
  "CalculateUnaryPlus visit arg s =
     and_then (visit arg s) (\<lambda>s1.
       case result s1 of
         Number x \<Rightarrow> Inr (s1\<lparr>result := Number x\<rparr>)
       | _ \<Rightarrow> throw (runtime_error ''Unary plus can be applied only to the number'') s1)"

definition CalculateLogicalNot :: "visitor \<Rightarrow> node \<Rightarrow> state \<Rightarrow> state outcome" where
  "CalculateLogicalNot visit arg s =
     and_then (visit arg s) (\<lambda>s1.
     and_then (GetBool s1 (result s1)) (\<lambda>b. Inr (s1\<lparr>result := Number (of_bool (\<not> b))\<rparr>)))"

text \<open>\<^verbatim>\<open>CalculateAssign\<close>, and the common shape of \<^verbatim>\<open>CalculateAddAssign\<close>, ...,
  \<^verbatim>\<open>CalculatePowAssign\<close>; \<open>binary\<close> is the part of \<^verbatim>\<open>Visit(BinaryOperationNode&)\<close> after
  its first \<^verbatim>\<open>switch\<close>.\<close>

definition binary ::
  "visitor \<Rightarrow> (val \<Rightarrow> val \<Rightarrow> state \<Rightarrow> state outcome) \<Rightarrow> node \<Rightarrow> node \<Rightarrow> state \<Rightarrow> state outcome" where
  "binary visit calculate lhs rhs s =
     and_then (visit lhs s) (\<lambda>s1.
     and_then (visit rhs s1) (\<lambda>s2. calculate (result s1) (result s2) s2))"

definition CalculateAssign :: "visitor \<Rightarrow> node \<Rightarrow> node \<Rightarrow> state \<Rightarrow> state outcome" where
  "CalculateAssign visit lhs rhs s = and_then (visit rhs s) (AssignToLeftOperand lhs)"

definition compound_assign ::
  "visitor \<Rightarrow> (val \<Rightarrow> val \<Rightarrow> state \<Rightarrow> state outcome) \<Rightarrow> node \<Rightarrow> node \<Rightarrow> state \<Rightarrow> state outcome" where
  "compound_assign visit calculate lhs rhs s =
     and_then (binary visit calculate lhs rhs s) (AssignToLeftOperand lhs)"

text \<open>
  One \<^verbatim>\<open>Visit\<close> member per node class. \<open>visit\<close> is \<^verbatim>\<open>Calculate(*this)\<close> on a child or on a
  statement of a called function, which gets the fuel \<open>n\<close>. \<open>F\<close> holds the function
  definitions of the program: \<open>F ! p\<close> is the definition at address \<open>p\<close>.
\<close>

fun Visit_node ::
  "library \<Rightarrow> FunctionDefinition list \<Rightarrow> visitor \<Rightarrow> nat \<Rightarrow> node \<Rightarrow> state \<Rightarrow> state outcome" where
  "Visit_node L F visit n (NumberLiteralNode v) s = Inr (s\<lparr>result := Number v\<rparr>)"
| "Visit_node L F visit n (StringLiteralNode v) s = Inr (make_shared_string v s)"
| "Visit_node L F visit n NilLiteralNode s = Inr (s\<lparr>result := Monostate\<rparr>)"
| "Visit_node L F visit n (VariableNode name) s =
     (case FindVariable s name of
        Some v \<Rightarrow> Inr (s\<lparr>result := v\<rparr>)
      | None \<Rightarrow> throw (runtime_error (''Variable '' @ quoted name @ '' not found'')) s)"
| "Visit_node L F visit n (ListLiteralNode elements) s =
     and_then (list_elements visit elements s) (\<lambda>(vs, s1). Inr (make_shared_List vs s1))"
| "Visit_node L F visit n (BinaryOperationNode operation lhs rhs) s =
     (case operation of
        kAssign \<Rightarrow> CalculateAssign visit lhs rhs s
      | kAddAssign \<Rightarrow> compound_assign visit CalculateAdd lhs rhs s
      | kSubAssign \<Rightarrow> compound_assign visit CalculateSub lhs rhs s
      | kMultAssign \<Rightarrow> compound_assign visit CalculateMult lhs rhs s
      | kDivAssign \<Rightarrow> compound_assign visit CalculateDiv lhs rhs s
      | kModAssign \<Rightarrow> compound_assign visit CalculateMod lhs rhs s
      | kPowAssign \<Rightarrow> compound_assign visit CalculatePow lhs rhs s
      | kMultiply \<Rightarrow> binary visit CalculateMult lhs rhs s
      | kMinus \<Rightarrow> binary visit CalculateSub lhs rhs s
      | kPlus \<Rightarrow> binary visit CalculateAdd lhs rhs s
      | kDivide \<Rightarrow> binary visit CalculateDiv lhs rhs s
      | kModulo \<Rightarrow> binary visit CalculateMod lhs rhs s
      | kPower \<Rightarrow> binary visit CalculatePow lhs rhs s
      | kEqual \<Rightarrow> binary visit CalculateEqual lhs rhs s
      | kNotEqual \<Rightarrow> binary visit CalculateNotEqual lhs rhs s
      | kLess \<Rightarrow> binary visit CalculateLess lhs rhs s
      | kLessOrEqual \<Rightarrow> binary visit CalculateLessOrEqual lhs rhs s
      | kGreater \<Rightarrow> binary visit CalculateGreater lhs rhs s
      | kGreaterOrEqual \<Rightarrow> binary visit CalculateGreaterOrEqual lhs rhs s
      | _ \<Rightarrow> binary visit (\<lambda>l r s2. Inr s2) lhs rhs s)"
| "Visit_node L F visit n (UnaryOperationNode operation arg) s =
     and_then (visit arg s) (\<lambda>s1.
       case operation of
         kMinus \<Rightarrow> CalculateUnaryMinus visit arg s1
       | kPlus \<Rightarrow> CalculateUnaryPlus visit arg s1
       | kLogicalNot \<Rightarrow> CalculateLogicalNot visit arg s1
       | _ \<Rightarrow> Inr s1)"
| "Visit_node L F visit n (IfNode then_statements else_statements condition) s =
     and_then (visit condition s) (\<lambda>s1.
     and_then (GetBool s1 (result s1)) (\<lambda>c.
     and_then (ExecuteStatements visit (if c then then_statements else else_statements)
                 (PushScope s1)) (\<lambda>s2.
       Inr (PopScope s2))))"
| "Visit_node L F visit n (FunctionImplementationNode p) s = Inr (s\<lparr>result := FunctionPtr p\<rparr>)"
| "Visit_node L F visit n BreakNode s = Inr (s\<lparr>control_flow := kBreak\<rparr>)"
| "Visit_node L F visit n ContinueNode s = Inr (s\<lparr>control_flow := kContinue\<rparr>)"
| "Visit_node L F visit n (ReturnNode v) s =
     and_then (visit v s) (\<lambda>s1. Inr (s1\<lparr>control_flow := kReturn\<rparr>))"
| "Visit_node L F visit n (UnnamedFunctionCallNode function args) s =
     and_then (visit function s) (\<lambda>s1.
       case result s1 of
         FunctionPtr p \<Rightarrow>
           if length F \<le> p then Inl Undefined
           else
             and_then (call_arguments visit (arg_names (F ! p)) args (PushScope s1)) (\<lambda>s2.
             and_then (call_body visit (body (F ! p)) s2) (\<lambda>s3.
               let s4 = PopScope s3
               in if control_flow s4 = kReturn then Inr (s4\<lparr>control_flow := kDefault\<rparr>)
                  else Inr (s4\<lparr>result := Monostate\<rparr>)))
       | _ \<Rightarrow> throw (runtime_error ''() operator can be applied only to the function'') s1)"
| "Visit_node L F visit n (FunctionCallNode function_name args) s =
     (if \<not> IsFunctionName s function_name
      then throw (runtime_error (''Function '' @ function_name @ '' not found'')) s
      else case FindVariable s function_name of
        None \<Rightarrow> throw (runtime_error (''Function '' @ quoted function_name @ '' not found'')) s
      | Some (FunctionPtr p) \<Rightarrow>
          if length F \<le> p then Inl Undefined
          else if length (arg_names (F ! p)) \<noteq> length args
          then throw (runtime_error (''Function '' @ quoted function_name @ '' with ''
                        @ digits (length args) @ '' arguments not found'')) (PushScope s)
          else
            and_then (call_arguments visit (arg_names (F ! p)) args (PushScope s)) (\<lambda>s2.
            and_then (call_body visit (body (F ! p)) s2) (\<lambda>s3.
              let s4 = PopScope s3
              in Inr ((if control_flow s4 \<noteq> kReturn then s4\<lparr>result := Monostate\<rparr> else s4)
                        \<lparr>control_flow := kDefault\<rparr>)))
      | Some _ \<Rightarrow> throw bad_variant_access s)"
| "Visit_node L F visit n (RootNode statements) s = root_statements visit statements s"
| "Visit_node L F visit n (WhileNode condition statements) s =
     while_loop visit n condition statements s"
| "Visit_node L F visit n (ForNode iterable_name sequence statements) s =
     and_then (visit sequence s) (\<lambda>s1.
       case result s1 of
         ListPtr p \<Rightarrow>
           and_then (list_at s1 p) (\<lambda>elements.
             for_list visit iterable_name p 0 (length elements) statements s1)
       | StringPtr p \<Rightarrow>
           and_then (string_at s1 p) (\<lambda>str.
             for_string visit iterable_name p 0 (length str) statements s1)
       | _ \<Rightarrow> throw (runtime_error ''Sequence must be iterable'') s1)"
| "Visit_node L F visit n (GlobalFunctionNode name args) s =
     ExecuteGlobal L visit n name args s"

text \<open>
  \<open>Visit L F n node s\<close> is \<^verbatim>\<open>node.Calculate(visitor)\<close> in state \<open>s\<close> with fuel \<open>n\<close>: each
  nested \<^verbatim>\<open>Calculate\<close> has one unit less, and a \<^verbatim>\<open>while\<close> loop at fuel \<open>n\<close> makes at most
  \<open>n\<close> tests of its condition.
\<close>

primrec Visit ::
  "library \<Rightarrow> FunctionDefinition list \<Rightarrow> nat \<Rightarrow> node \<Rightarrow> state \<Rightarrow> state outcome" where
  "Visit L F 0 = (\<lambda>node s. Inl OutOfFuel)"
| "Visit L F (Suc n) = Visit_node L F (Visit L F n) n"

subsection \<open>A library to run programs with\<close>

text \<open>
  An instance of the library for running concrete programs: \<^verbatim>\<open>std::sort\<close> as insertion
  sort, \<^verbatim>\<open>std::rand\<close> as the sample generator of the C standard, a \<^verbatim>\<open>strtod\<close> that
  converts decimal literals without sign and exponent (and nothing else), and the
  \<^verbatim>\<open>what()\<close> texts of libstdc++.
\<close>

fun insert_by :: "(val \<Rightarrow> val \<Rightarrow> exn + bool) \<Rightarrow> val \<Rightarrow> val list \<Rightarrow> exn + val list" where
  "insert_by lt x [] = Inr [x]"
| "insert_by lt x (y # ys) =
     (case lt x y of
        Inl e \<Rightarrow> Inl e
      | Inr True \<Rightarrow> Inr (x # y # ys)
      | Inr False \<Rightarrow> (case insert_by lt x ys of Inl e \<Rightarrow> Inl e | Inr zs \<Rightarrow> Inr (y # zs)))"

fun insertion_sort ::
  "(val \<Rightarrow> val \<Rightarrow> exn + bool) \<Rightarrow> val list \<Rightarrow> (exn \<times> val list) + val list" where
  "insertion_sort lt [] = Inr []"
| "insertion_sort lt (x # xs) =
     (case insertion_sort lt xs of
        Inl (e, permuted) \<Rightarrow> Inl (e, x # permuted)
      | Inr ys \<Rightarrow> (case insert_by lt x ys of Inl e \<Rightarrow> Inl (e, x # ys) | Inr zs \<Rightarrow> Inr zs))"

primrec sample_rand_state :: "nat \<Rightarrow> nat" where
  "sample_rand_state 0 = 1"
| "sample_rand_state (Suc k) = (sample_rand_state k * 1103515245 + 12345) mod 2 ^ 32"

definition sample_rand :: "nat \<Rightarrow> nat" where
  "sample_rand k = (sample_rand_state (Suc k) div 65536) mod 32768"

definition is_digit :: "char \<Rightarrow> bool" where
  "is_digit c = (CHR ''0'' \<le> c \<and> c \<le> CHR ''9'')"

definition decimal_value :: "string \<Rightarrow> nat" where
  "decimal_value ds = foldl (\<lambda>a c. 10 * a + (of_char c - 48)) 0 ds"

definition decimal_strtod :: "string \<Rightarrow> real option \<times> nat" where
  "decimal_strtod str =
     (let whole = takeWhile is_digit str;
          rest = drop (length whole) str;
          dot = (rest \<noteq> [] \<and> hd rest = CHR ''.'');
          fraction = (if dot then takeWhile is_digit (tl rest) else [])
      in if whole = [] \<and> fraction = [] then (Some 0, 0)
         else (Some (real (decimal_value (whole @ fraction)) / 10 ^ length fraction),
               length whole + (if dot then Suc (length fraction) else 0)))"

definition libstdcxx_what :: "exn \<Rightarrow> string" where
  "libstdcxx_what e =
     (case e of
        runtime_error message \<Rightarrow> message
      | bad_variant_access \<Rightarrow> ''std::get: wrong index for variant''
      | out_of_range pos len \<Rightarrow>
          ''basic_string::substr: __pos (which is '' @ digits pos
          @ '') > this->size() (which is '' @ digits len @ '')'')"

definition example_library :: library where
  "example_library =
     \<lparr> strtod = decimal_strtod, rand = sample_rand, std_sort = insertion_sort,
       library_what = libstdcxx_what \<rparr>"

subsection \<open>The entry point\<close>

text \<open>The loop of \<^verbatim>\<open>interpret\<close> that reads the source:
  \<^verbatim>\<open>while (std::getline(input, line)) code += line + '\n';\<close>\<close>

function read_code :: "string \<Rightarrow> string" where
  "read_code input =
     (if input = [] then []
      else case getline input of (line, rest) \<Rightarrow> line @ [newline] @ read_code rest)"
  by pat_completeness auto
termination
proof (relation "measure length")
  show "wf (measure length)" by simp
next
  fix input :: string and x y
  assume nonempty: "input \<noteq> []" and line: "(x, y) = getline input"
  have "length (dropWhile (\<lambda>c. c \<noteq> newline) input) \<le> length input"
    by (rule length_dropWhile_le)
  moreover have "0 < length input"
    using nonempty by simp
  ultimately have "length (dropWhile (\<lambda>c. c \<noteq> newline) input) - 1 < length input"
    by linarith
  moreover have "y = drop 1 (dropWhile (\<lambda>c. c \<noteq> newline) input)"
    using line by (simp add: getline_def)
  ultimately show "(y, input) \<in> measure length"
    by simp
qed

declare read_code.simps [simp del]

text \<open>\<^verbatim>\<open>output << e.what()\<close>: the message of a \<^verbatim>\<open>std::runtime_error\<close> is the string it was
  made from, and the stream writes the C string, up to its first zero byte.\<close>

definition what :: "library \<Rightarrow> exn \<Rightarrow> string" where
  "what L e =
     takeWhile (\<lambda>c. c \<noteq> CHR 0x00)
       (case e of runtime_error message \<Rightarrow> message | _ \<Rightarrow> library_what L e)"

text \<open>
  \<^verbatim>\<open>interpret(input, output)\<close> (capitalised here, \<open>interpret\<close> being a keyword of
  Isabelle), with the parser as a parameter: \<open>parse code\<close> is the
  exception which \<^verbatim>\<open>Parser(code).ParseCode()\<close> throws, or the function definitions and the
  root node it builds. The result is the value returned and what was written to
  \<^verbatim>\<open>output\<close>; \<open>stdin\<close> is what \<^verbatim>\<open>std::cin\<close> holds, from which the visitor reads. There is
  no result when the evaluation has none in this model (\<open>Undefined\<close>, \<open>Unmodelled\<close>,
  \<open>OutOfFuel\<close>).
\<close>

definition Interpret ::
  "library \<Rightarrow> (string \<Rightarrow> exn + FunctionDefinition list \<times> node) \<Rightarrow> nat \<Rightarrow> string \<Rightarrow> string
     \<Rightarrow> (bool \<times> string) option" where
  "Interpret L parse n input stdin =
     (case parse (read_code input) of
        Inl e \<Rightarrow> Some (False, what L e @ [newline])
      | Inr (F, ast) \<Rightarrow>
          (case Visit L F n ast (initial stdin) of
             Inr s \<Rightarrow> Some (True, out s)
           | Inl (Thrown e s) \<Rightarrow> Some (False, out s @ what L e @ [newline])
           | Inl _ \<Rightarrow> None))"

lemmas run_simps =
  eval_nat_numeral and_then_def throw_def Let_def initial_def
  binary_def compound_assign_def CalculateAssign_def
  CalculateUnaryMinus_def CalculateUnaryPlus_def CalculateLogicalNot_def
  AssignToLeftOperand_def SetVariable_def PushScope_def PopScope_def FindVariable_def
  insert_function_name_def IsFunctionName_def after_iteration_def
  make_shared_string_def make_shared_List_def string_at_def list_at_def
  CalculateAdd_def CalculateSub_def CalculateMult_def
  CalculateLess_def CalculateEqual_def compare_values_def
  ExecuteGlobal_def ExecutePrint_def ExecutePrintln_def
  to_string_int_def int64_cast_def size_t_cast_def trunc_def digits.simps digit_def quoted_def

subsection \<open>Programs whose \<^verbatim>\<open>return\<close> statements stand outside loops\<close>

text \<open>
  \<open>return_free node\<close>: no \<^verbatim>\<open>ReturnNode\<close> occurs in the tree of \<open>node\<close> (a function literal
  is a leaf of the tree: its body belongs to the definition). \<open>returns_guarded node\<close>: the
  \<^verbatim>\<open>ReturnNode\<close>s of the statement \<open>node\<close> are the statement itself or statements of the
  blocks of \<^verbatim>\<open>if\<close> statements, nested to any depth, and nowhere else: in particular not
  in a loop and not in an expression. \<open>guarded_program F\<close>: the statements of every function
  body are of this kind.

  The remaining definitions state the invariant of the visitor: \<open>balanced s s'\<close> compares
  the depths of the scope stack in two states, where \<^verbatim>\<open>SetVariable\<close> on an empty stack
  creates one scope; \<open>quiet\<close> and \<open>level\<close> say what a visit that starts with a flag other
  than \<^verbatim>\<open>kReturn\<close> leaves; \<open>good visit\<close> is the invariant for a visitor, \<open>ok_from\<close>,
  \<open>ok_snd\<close> and \<open>lvl_from\<close> are its forms for the outcome of one step.
\<close>

fun return_free :: "node \<Rightarrow> bool" where
  "return_free (NumberLiteralNode v) = True"
| "return_free (StringLiteralNode v) = True"
| "return_free (ListLiteralNode elements) = list_all return_free elements"
| "return_free NilLiteralNode = True"
| "return_free (VariableNode name) = True"
| "return_free (BinaryOperationNode operation lhs rhs) = (return_free lhs \<and> return_free rhs)"
| "return_free (UnaryOperationNode operation arg) = return_free arg"
| "return_free (IfNode then_statements else_statements condition) =
     (list_all return_free then_statements \<and> list_all return_free else_statements
      \<and> return_free condition)"
| "return_free (WhileNode condition statements) =
     (return_free condition \<and> list_all return_free statements)"
| "return_free (ForNode iterable_name sequence statements) =
     (return_free sequence \<and> list_all return_free statements)"
| "return_free (RootNode statements) = list_all return_free statements"
| "return_free (GlobalFunctionNode name args) = list_all return_free args"
| "return_free (FunctionCallNode function_name args) = list_all return_free args"
| "return_free (UnnamedFunctionCallNode function args) =
     (return_free function \<and> list_all return_free args)"
| "return_free (FunctionImplementationNode p) = True"
| "return_free BreakNode = True"
| "return_free ContinueNode = True"
| "return_free (ReturnNode v) = False"

fun returns_guarded :: "node \<Rightarrow> bool" where
  "returns_guarded (ReturnNode v) = return_free v"
| "returns_guarded (IfNode then_statements else_statements condition) =
     (list_all returns_guarded then_statements \<and> list_all returns_guarded else_statements
      \<and> return_free condition)"
| "returns_guarded node = return_free node"

definition balanced :: "state \<Rightarrow> state \<Rightarrow> bool" where
  "balanced s s' =
     (length (scopes s') = length (scopes s) \<or> (scopes s = [] \<and> length (scopes s') = 1))"

definition quiet :: "state \<Rightarrow> state \<Rightarrow> bool" where
  "quiet s s' = (control_flow s \<noteq> kReturn \<longrightarrow> balanced s s' \<and> control_flow s' \<noteq> kReturn)"

definition level :: "state \<Rightarrow> state \<Rightarrow> bool" where
  "level s s' = (control_flow s \<noteq> kReturn \<longrightarrow> balanced s s')"

definition good :: "visitor \<Rightarrow> bool" where
  "good visit =
     (\<forall>node s s'. visit node s = Inr s' \<longrightarrow>
        (return_free node \<longrightarrow> quiet s s') \<and> (returns_guarded node \<longrightarrow> level s s'))"

definition ok_from :: "state \<Rightarrow> state outcome \<Rightarrow> bool" where
  "ok_from s m = (\<forall>s'. m = Inr s' \<longrightarrow> quiet s s')"

definition ok_snd :: "state \<Rightarrow> ('a \<times> state) outcome \<Rightarrow> bool" where
  "ok_snd s m = (\<forall>x s'. m = Inr (x, s') \<longrightarrow> quiet s s')"

definition lvl_from :: "state \<Rightarrow> state outcome \<Rightarrow> bool" where
  "lvl_from s m = (\<forall>s'. m = Inr s' \<longrightarrow> level s s')"

definition guarded_program :: "FunctionDefinition list \<Rightarrow> bool" where
  "guarded_program F = list_all (\<lambda>d. list_all returns_guarded (body d)) F"

section \<open>Properties\<close>

text \<open>
  C10. Comparing two Nil values with \<^verbatim>\<open>==\<close> leaves the Number 1.0 in the result register
  and with \<^verbatim>\<open>!=\<close> the Number 0.0: both operands hold \<^verbatim>\<open>std::monostate\<close>, so the
  same-alternative branch of \<^verbatim>\<open>CalculateCompare\<close> applies, and the result of \<^verbatim>\<open>==\<close>
  coerces to true.
\<close>

theorem nil_equals_nil:
  "Visit L F (Suc (Suc n)) (BinaryOperationNode kEqual NilLiteralNode NilLiteralNode) s
     = Inr (s\<lparr>result := Number 1\<rparr>)
   \<and> Visit L F (Suc (Suc n)) (BinaryOperationNode kNotEqual NilLiteralNode NilLiteralNode) s
     = Inr (s\<lparr>result := Number 0\<rparr>)
   \<and> CalculateEqual Monostate Monostate s = Inr (s\<lparr>result := Number 1\<rparr>)
   \<and> CalculateNotEqual Monostate Monostate s = Inr (s\<lparr>result := Number 0\<rparr>)
   \<and> GetBool (s\<lparr>result := Number 1\<rparr>) (Number 1) = Inr True"
  by (simp add: binary_def and_then_def CalculateEqual_def CalculateNotEqual_def compare_values_def)

text \<open>
  C7 (fails on the code). Between two lists, \<^verbatim>\<open><\<close>, \<^verbatim>\<open><=\<close>, \<^verbatim>\<open>>\<close> and \<^verbatim>\<open>>=\<close> reach
  \<^verbatim>\<open>CalculateCompare\<close>, which applies the operator to the two \<^verbatim>\<open>shared_ptr<List>\<close>:
  the result is the order of the two addresses, whatever the lists hold. Two distinct
  lists of one element each: the claim gives \<open>0.0\<close> for \<^verbatim>\<open><\<close> in both directions, the
  code gives \<open>1.0\<close> in one of them.
\<close>

theorem list_less_compares_addresses:
  "list_at s p = Inr [Number 1] \<and> list_at s q = Inr [Number 2] \<and> p \<noteq> q
   \<longrightarrow> (CalculateLess (ListPtr p) (ListPtr q) s = Inr (s\<lparr>result := Number 1\<rparr>)
        \<or> CalculateLess (ListPtr q) (ListPtr p) s = Inr (s\<lparr>result := Number 1\<rparr>))"
  by (auto simp: CalculateLess_def compare_values_def)

theorem list_less_compares_addresses_witness:
  "CalculateLess (ListPtr 0) (ListPtr 1) ((initial [])\<lparr>list_heap := [[Number 1], [Number 2]]\<rparr>)
     = Inr ((initial [])\<lparr>list_heap := [[Number 1], [Number 2]], result := Number 1\<rparr>)"
  using list_less_compares_addresses
    [of "(initial [])\<lparr>list_heap := [[Number 1], [Number 2]]\<rparr>" 0 1]
  by (simp add: list_at_def initial_def CalculateLess_def compare_values_def)

text \<open>In a program: with \<open>a\<close> allocated before \<open>b\<close>, \<^verbatim>\<open>a < b\<close> between two lists of one
  element each is 1.0.\<close>

lemma list_less_in_a_program:
  "Visit example_library [] 4
     (RootNode
       [BinaryOperationNode kAssign (VariableNode ''a'') (ListLiteralNode [NumberLiteralNode 1]),
        BinaryOperationNode kAssign (VariableNode ''b'') (ListLiteralNode [NumberLiteralNode 2]),
        BinaryOperationNode kLess (VariableNode ''a'') (VariableNode ''b'')])
     (initial [])
   = Inr ((initial [])\<lparr>result := Number 1,
                        scopes := [[(''a'', ListPtr 0), (''b'', ListPtr 1)]],
                        function_names := [{}], list_heap := [[Number 1], [Number 2]]\<rparr>)"
  by (simp add: run_simps)

text \<open>
  C8 (fails on the code). \<^verbatim>\<open>[1, 2, 3, 4] * 0.5\<close>: the code truncates the multiplier
  before it multiplies, so the new list has \<open>\<lfloor>0.5\<rfloor> * 4 = 0\<close> elements, where the claim
  gives \<open>\<lfloor>0.5 * 4\<rfloor> = 2\<close>.
\<close>

theorem list_times_half_is_empty:
  "Visit example_library [] 3
     (BinaryOperationNode kMultiply
        (ListLiteralNode [NumberLiteralNode 1, NumberLiteralNode 2, NumberLiteralNode 3,
                          NumberLiteralNode 4])
        (NumberLiteralNode (1 / 2)))
     (initial [])
   = Inr ((initial [])\<lparr>list_heap := [[Number 1, Number 2, Number 3, Number 4], []],
                        result := ListPtr 1\<rparr>)
   \<and> nat \<lfloor>(1 / 2 :: real) * real (length [Number 1, Number 2, Number 3, Number 4])\<rfloor> = 2"
  by (simp add: numeral_3_eq_3 binary_def and_then_def CalculateMult_def list_at_def initial_def
        size_t_cast_def trunc_def make_shared_List_def)

text \<open>
  C1 (fails on the code). The second \<^verbatim>\<open>switch\<close> of \<^verbatim>\<open>Visit(BinaryOperationNode&)\<close> has no
  case for \<^verbatim>\<open>kLogicalAnd\<close> and \<^verbatim>\<open>kLogicalOr\<close>: both operands are evaluated and the result
  register keeps the value of the right operand. \<^verbatim>\<open>0 and 5\<close> leaves 5.0 (the claim: 0.0,
  since the conjunction is false) and \<^verbatim>\<open>1 or 7\<close> leaves 7.0 (the claim: 1.0).
\<close>

theorem logical_operators_leave_right_operand:
  "Visit example_library [] 2
     (BinaryOperationNode kLogicalAnd (NumberLiteralNode 0) (NumberLiteralNode 5)) (initial [])
   = Inr ((initial [])\<lparr>result := Number 5\<rparr>)
   \<and> Visit example_library [] 2
     (BinaryOperationNode kLogicalOr (NumberLiteralNode 1) (NumberLiteralNode 7)) (initial [])
   = Inr ((initial [])\<lparr>result := Number 7\<rparr>)"
  by (simp add: run_simps)

text \<open>The same for all operands: with either operator the node is its left operand followed
  by its right operand, and nothing else.\<close>

lemma logical_operators_in_general:
  "operation = kLogicalAnd \<or> operation = kLogicalOr \<Longrightarrow>
   Visit L F (Suc n) (BinaryOperationNode operation lhs rhs) s
   = and_then (Visit L F n lhs s) (\<lambda>s1. Visit L F n rhs s1)"
  by (auto simp: binary_def and_then_def split: sum.splits)

text \<open>
  C2 (fails on the code). After \<^verbatim>\<open>PopScope()\<close>, \<^verbatim>\<open>Visit(WhileNode&)\<close> resets a \<^verbatim>\<open>kBreak\<close>
  flag to \<^verbatim>\<open>kDefault\<close> and then falls to the end of the body of \<^verbatim>\<open>while (true)\<close>: the
  condition is evaluated again and the loop goes on. In
  \<^verbatim>\<open>i = 0; while i < 3  i = i + 1; break  end while\<close>
  the body runs three times and leaves \<open>i = 3\<close>, where the claim ends the loop after the
  first \<^verbatim>\<open>break\<close> with \<open>i = 1\<close>.
\<close>

theorem break_does_not_leave_while:
  "Visit example_library [] 6
     (RootNode
       [BinaryOperationNode kAssign (VariableNode ''i'') (NumberLiteralNode 0),
        WhileNode (BinaryOperationNode kLess (VariableNode ''i'') (NumberLiteralNode 3))
          [BinaryOperationNode kAssign (VariableNode ''i'')
             (BinaryOperationNode kPlus (VariableNode ''i'') (NumberLiteralNode 1)),
           BreakNode]])
     (initial [])
   = Inr ((initial [])\<lparr>result := Number 0, scopes := [[(''i'', Number 3)]],
                        function_names := [{}]\<rparr>)"
  by (simp add: run_simps)

text \<open>
  C4 (fails on the code). \<^verbatim>\<open>Visit(UnnamedFunctionCallNode&)\<close> resets the flag only when it is
  \<^verbatim>\<open>kReturn\<close>. The call \<^verbatim>\<open>(function() break end function)()\<close> returns with the flag
  \<^verbatim>\<open>kBreak\<close>; the named call of the same function, \<^verbatim>\<open>f()\<close> after
  \<^verbatim>\<open>f = function() break end function\<close>, returns with \<^verbatim>\<open>kDefault\<close>.
\<close>

theorem unnamed_call_keeps_break:
  "Visit example_library [\<lparr>body = [BreakNode], arg_names = []\<rparr>] 3
     (UnnamedFunctionCallNode (FunctionImplementationNode 0) []) (initial [])
   = Inr ((initial [])\<lparr>result := Monostate, control_flow := kBreak\<rparr>)
   \<and> Visit example_library [\<lparr>body = [BreakNode], arg_names = []\<rparr>] 4
     (RootNode
       [BinaryOperationNode kAssign (VariableNode ''f'') (FunctionImplementationNode 0),
        FunctionCallNode ''f'' []])
     (initial [])
   = Inr ((initial [])\<lparr>result := Monostate, control_flow := kDefault,
                        scopes := [[(''f'', FunctionPtr 0)]], function_names := [{''f''}, {''f''}]\<rparr>)"
  by (simp add: run_simps)

text \<open>
  C5 (fails on the code). \<^verbatim>\<open>Visit(UnaryOperationNode&)\<close> evaluates \<^verbatim>\<open>node.arg()\<close> and then
  calls \<^verbatim>\<open>CalculateUnaryMinus\<close>, \<^verbatim>\<open>CalculateUnaryPlus\<close> or \<^verbatim>\<open>CalculateLogicalNot\<close>, each of
  which evaluates \<^verbatim>\<open>node.arg()\<close> again. \<^verbatim>\<open>-print(1)\<close> writes \<^verbatim>\<open>11\<close>.
\<close>

theorem unary_operand_evaluated_twice:
  "Visit example_library [] 4
     (UnaryOperationNode kMinus (GlobalFunctionNode kPrint [NumberLiteralNode 1])) (initial [])
   = Inr ((initial [])\<lparr>result := Number (- 1), out := ''11''\<rparr>)"
  by (simp add: run_simps)

text \<open>The same for all operands and the three operators.\<close>

lemma unary_operators_in_general:
  "Visit L F (Suc n) (UnaryOperationNode kMinus arg) s
     = and_then (Visit L F n arg s) (CalculateUnaryMinus (Visit L F n) arg)
   \<and> Visit L F (Suc n) (UnaryOperationNode kPlus arg) s
     = and_then (Visit L F n arg s) (CalculateUnaryPlus (Visit L F n) arg)
   \<and> Visit L F (Suc n) (UnaryOperationNode kLogicalNot arg) s
     = and_then (Visit L F n arg s) (CalculateLogicalNot (Visit L F n) arg)"
  by simp

subsection \<open>Lookup after assignment\<close>







text \<open>
  C9. \<^verbatim>\<open>interpret\<close> returns \<^verbatim>\<open>false\<close> exactly when the parser or the visitor throws, and
  then the output holds what the program wrote before, the message of the exception and
  one newline; when neither throws it returns \<^verbatim>\<open>true\<close> and the output holds what the
  program wrote.
\<close>

theorem interpret_reports_errors:
  "(parse (read_code input) = Inl e
      \<longrightarrow> Interpret L parse n input stdin = Some (False, what L e @ [newline]))
   \<and> (parse (read_code input) = Inr (F, ast) \<and> Visit L F n ast (initial stdin) = Inl (Thrown e s)
      \<longrightarrow> Interpret L parse n input stdin = Some (False, out s @ what L e @ [newline]))
   \<and> (parse (read_code input) = Inr (F, ast) \<and> Visit L F n ast (initial stdin) = Inr s
      \<longrightarrow> Interpret L parse n input stdin = Some (True, out s))
   \<and> (Interpret L parse n input stdin = Some (ok, written)
      \<longrightarrow> (ok \<longleftrightarrow> (\<exists>F ast s. parse (read_code input) = Inr (F, ast)
                        \<and> Visit L F n ast (initial stdin) = Inr s)))"
  by (auto simp: Interpret_def split: sum.splits failure.splits prod.splits)

theorem interpret_reports_errors_witness:
  "Interpret example_library
     (\<lambda>code. Inr ([], RootNode [GlobalFunctionNode kPrint [NumberLiteralNode 3],
                                 GlobalFunctionNode kPrint [VariableNode ''x'']]))
     3 ''print(3) print(x)'' []
   = Some (False, ''3Variable '' @ quoted ''x'' @ '' not found'' @ [newline])
   \<and> Interpret example_library
     (\<lambda>code. Inr ([], RootNode [GlobalFunctionNode kPrint [NumberLiteralNode 3]]))
     3 ''print(3)'' []
   = Some (True, ''3'')
   \<and> Interpret example_library (\<lambda>code. Inl (runtime_error ''Incorrect expression''))
     3 ''('' []
   = Some (False, ''Incorrect expression'' @ [newline])"
proof -
  let ?root = "RootNode [GlobalFunctionNode kPrint [NumberLiteralNode 3],
                         GlobalFunctionNode kPrint [VariableNode ''x'']]"
  let ?s = "(initial [])\<lparr>result := Number 3, out := ''3''\<rparr>"
  have thrown: "Visit example_library [] 3 ?root (initial [])
      = Inl (Thrown (runtime_error (''Variable '' @ quoted ''x'' @ '' not found'')) ?s)"
    by (simp add: run_simps)
  have returned: "Visit example_library [] 3
      (RootNode [GlobalFunctionNode kPrint [NumberLiteralNode 3]]) (initial []) = Inr ?s"
    by (simp add: run_simps)
  show ?thesis
    using interpret_reports_errors
        [of "\<lambda>code. Inr ([], ?root)" "''print(3) print(x)''"
            "runtime_error (''Variable '' @ quoted ''x'' @ '' not found'')"
            example_library 3 "[]" "[]" ?root ?s]
      interpret_reports_errors
        [of "\<lambda>code. Inr ([], RootNode [GlobalFunctionNode kPrint [NumberLiteralNode 3]])"
            "''print(3)''" _ example_library 3 "[]" "[]"
            "RootNode [GlobalFunctionNode kPrint [NumberLiteralNode 3]]" ?s]
      interpret_reports_errors
        [of "\<lambda>code. Inl (runtime_error ''Incorrect expression'')" "''(''"
            "runtime_error ''Incorrect expression''" example_library 3 "[]"]
      thrown returned
    by (simp add: what_def quoted_def)
qed


section \<open>The scope stack is balanced\<close>

subsection \<open>Rules for one step\<close>

lemma quiet_refl [simp]: "quiet s s"
  by (simp add: quiet_def balanced_def)

lemma quiet_trans: "quiet s s1 \<Longrightarrow> quiet s1 s2 \<Longrightarrow> quiet s s2"
  by (auto simp: quiet_def balanced_def)

lemma quiet_frame:
  "scopes s' = scopes s \<Longrightarrow> control_flow s' = control_flow s \<Longrightarrow> quiet s s'"
  by (simp add: quiet_def balanced_def)

lemma ok_Inr [simp]: "ok_from s (Inr s') = quiet s s'"
  by (simp add: ok_from_def)

lemma ok_Inl [simp]: "ok_from s (Inl e)"
  by (simp add: ok_from_def)

lemma ok_throw [simp]: "ok_from s (throw e t)"
  by (simp add: ok_from_def throw_def)

lemma ok_bind_state:
  fixes m :: "state outcome"
  assumes "ok_from s m" and "\<And>s1. m = Inr s1 \<Longrightarrow> ok_from s1 (f s1)"
  shows "ok_from s (and_then m f)"
  using assms by (cases m) (auto simp: ok_from_def and_then_def intro: quiet_trans)

lemma ok_bind_value:
  assumes "\<And>x. m = Inr x \<Longrightarrow> ok_from s (f x)"
  shows "ok_from s (and_then m f)"
  using assms by (cases m) (auto simp: ok_from_def and_then_def)

lemma ok_snd_Inr [simp]: "ok_snd s (Inr (x, s')) = quiet s s'"
  by (simp add: ok_snd_def)

lemma ok_snd_Inl [simp]: "ok_snd s (Inl e)"
  by (simp add: ok_snd_def)

lemma ok_bind_pair:
  fixes m :: "('a \<times> state) outcome"
  assumes "ok_snd s m"
    and "\<And>x s1. m = Inr (x, s1) \<Longrightarrow> ok_from s1 (f (x, s1))"
  shows "ok_from s (and_then m f)"
  using assms by (cases m) (auto simp: ok_from_def ok_snd_def and_then_def intro: quiet_trans)

lemma ok_snd_bind_state:
  fixes m :: "state outcome"
  assumes "ok_from s m" and "\<And>s1. m = Inr s1 \<Longrightarrow> ok_snd s1 (f s1)"
  shows "ok_snd s (and_then m f)"
  using assms by (cases m) (auto simp: ok_from_def ok_snd_def and_then_def intro: quiet_trans)

lemma ok_snd_bind_value:
  assumes "\<And>x. m = Inr x \<Longrightarrow> ok_snd s (f x)"
  shows "ok_snd s (and_then m f)"
  using assms by (cases m) (auto simp: ok_snd_def and_then_def)

lemma ok_snd_bind_pair:
  fixes m :: "('a \<times> state) outcome"
  assumes "ok_snd s m"
    and "\<And>x s1. m = Inr (x, s1) \<Longrightarrow> ok_snd s1 (f (x, s1))"
  shows "ok_snd s (and_then m f)"
  using assms by (cases m) (auto simp: ok_snd_def and_then_def intro: quiet_trans)

lemmas ok_snd_bind_values =
  ok_snd_bind_value [where 'a = real] ok_snd_bind_value [where 'a = nat]
  ok_snd_bind_value [where 'a = string] ok_snd_bind_value [where 'a = "val list"]
  ok_snd_bind_value [where 'a = val] ok_snd_bind_value [where 'a = "string list"]
  ok_snd_bind_value [where 'a = bool]

lemmas ok_bind_values =
  ok_bind_value [where 'a = real] ok_bind_value [where 'a = nat]
  ok_bind_value [where 'a = string] ok_bind_value [where 'a = "val list"]
  ok_bind_value [where 'a = val] ok_bind_value [where 'a = "string list"]
  ok_bind_value [where 'a = bool]

lemma ok_visit:
  "good visit \<Longrightarrow> return_free node \<Longrightarrow> ok_from s (visit node s)"
  by (auto simp: good_def ok_from_def)

lemma ok_visit_nth:
  "good visit \<Longrightarrow> list_all return_free args \<Longrightarrow> i < length args
   \<Longrightarrow> ok_from s (visit (args ! i) s)"
  by (auto simp: list_all_length intro: ok_visit)

lemma ok_visit_hd:
  "good visit \<Longrightarrow> list_all return_free args \<Longrightarrow> args \<noteq> []
   \<Longrightarrow> ok_from s (visit (hd args) s)"
  by (cases args) (auto intro: ok_visit)

lemma quiet_updates [simp]:
  "quiet s (s'\<lparr>result := r\<rparr>) = quiet s s'"
  "quiet s (s'\<lparr>out := ou\<rparr>) = quiet s s'"
  "quiet s (s'\<lparr>inp := i\<rparr>) = quiet s s'"
  "quiet s (s'\<lparr>string_heap := sh\<rparr>) = quiet s s'"
  "quiet s (s'\<lparr>list_heap := lh\<rparr>) = quiet s s'"
  "quiet s (s'\<lparr>rand_calls := rc\<rparr>) = quiet s s'"
  by (simp_all add: quiet_def balanced_def)

lemma quiet_make_shared [simp]:
  "quiet s (make_shared_string str s') = quiet s s'"
  "quiet s (make_shared_List xs s') = quiet s s'"
  by (simp_all add: make_shared_string_def make_shared_List_def)

lemma throw_not_Inr [simp]: "throw e s \<noteq> Inr s'"
  by (simp add: throw_def)

lemma and_thenE:
  assumes "and_then m f = Inr y"
  obtains x where "m = Inr x" and "f x = Inr y"
  using assms by (cases m) (auto simp: and_then_def)

subsection \<open>Steps that leave the scope stack and the flag alone\<close>

lemma CalculateCompare_quiet [simp]: "quiet s (CalculateCompare lhs rhs opr s')  = quiet s s'"
  by (cases "(lhs, rhs, opr, s')" rule: CalculateCompare.cases) simp_all

lemma compare_values_ok: "ok_from s (compare_values opr lhs rhs s)"
  unfolding compare_values_def
  by (auto intro!: ok_bind_values split: val.split)

lemma Calculate_compare_ok:
  "ok_from s (CalculateLess lhs rhs s)" "ok_from s (CalculateGreater lhs rhs s)"
  "ok_from s (CalculateEqual lhs rhs s)" "ok_from s (CalculateNotEqual lhs rhs s)"
  "ok_from s (CalculateLessOrEqual lhs rhs s)" "ok_from s (CalculateGreaterOrEqual lhs rhs s)"
  by (simp_all add: CalculateLess_def CalculateGreater_def CalculateEqual_def
      CalculateNotEqual_def CalculateLessOrEqual_def CalculateGreaterOrEqual_def compare_values_ok)

lemma CalculateAdd_ok: "ok_from s (CalculateAdd lhs rhs s)"
  unfolding CalculateAdd_def by (auto intro!: ok_bind_values split: val.split)

lemma CalculateSub_ok: "ok_from s (CalculateSub lhs rhs s)"
  unfolding CalculateSub_def by (auto intro!: ok_bind_values split: val.split)

lemma CalculateMult_ok: "ok_from s (CalculateMult lhs rhs s)"
  unfolding CalculateMult_def
  by (auto intro!: ok_bind_values simp: Let_def split: val.split option.split)

lemma CalculateDiv_ok: "ok_from s (CalculateDiv lhs rhs s)"
  unfolding CalculateDiv_def by (auto split: val.split)

lemma CalculateMod_ok: "ok_from s (CalculateMod lhs rhs s)"
  unfolding CalculateMod_def by (auto split: val.split option.split)

lemma CalculatePow_ok: "ok_from s (CalculatePow lhs rhs s)"
  unfolding CalculatePow_def by (auto split: val.split option.split)

lemmas Calculate_ok =
  Calculate_compare_ok CalculateAdd_ok CalculateSub_ok CalculateMult_ok CalculateDiv_ok
  CalculateMod_ok CalculatePow_ok

subsection \<open>Assignment\<close>

lemma assign_existing_length:
  "assign_existing scs name v = Some scs' \<Longrightarrow> length scs' = length scs"
  by (induction scs arbitrary: scs') (auto split: option.splits)

lemma insert_function_name_ok: "ok_from s (insert_function_name name s)"
  by (auto simp: insert_function_name_def quiet_def balanced_def split: list.split)

lemma SetVariable_ok: "ok_from s (SetVariable name v s)"
proof -
  define s1 where "s1 = (if scopes s = [] then PushScope s else s)"
  define s2 where "s2 =
    (case assign_existing (scopes s1) name v of
       Some updated \<Rightarrow> s1\<lparr>scopes := updated\<rparr>
     | None \<Rightarrow> s1\<lparr>scopes := AList.update name v (hd (scopes s1)) # tl (scopes s1)\<rparr>)"
  have 1: "quiet s s1"
    by (simp add: s1_def quiet_def balanced_def PushScope_def)
  have nonempty: "scopes s1 \<noteq> []"
    by (simp add: s1_def PushScope_def)
  have 2: "quiet s1 s2"
    using nonempty
    by (cases "scopes s1")
      (auto simp: s2_def quiet_def balanced_def dest: assign_existing_length split: option.split)
  have "quiet s s2"
    using 1 2 by (rule quiet_trans)
  moreover have "ok_from s2 (insert_function_name name s2)"
    by (rule insert_function_name_ok)
  ultimately show ?thesis
    by (auto simp: SetVariable_def Let_def s1_def [symmetric] s2_def [symmetric] ok_from_def
        intro: quiet_trans)
qed

lemma AssignToLeftOperand_ok: "ok_from s (AssignToLeftOperand lhs s)"
proof (cases lhs)
  case (VariableNode name)
  define s1 where "s1 =
    (if HoldsFunction (result s)
     then (case function_names s of
             [] \<Rightarrow> s\<lparr>function_names := [{name}]\<rparr>
           | names # rest \<Rightarrow> s\<lparr>function_names := insert name names # rest\<rparr>)
     else s)"
  have "quiet s s1"
    by (auto simp: s1_def quiet_def balanced_def split: list.split)
  moreover have "ok_from s1 (SetVariable name (result s1) s1)"
    by (rule SetVariable_ok)
  ultimately show ?thesis
    using VariableNode
    by (auto simp: AssignToLeftOperand_def Let_def s1_def [symmetric] ok_from_def
        intro: quiet_trans)
qed (simp_all add: AssignToLeftOperand_def)

lemma PushScope_PopScope_quiet: "quiet (PushScope s) s2 \<Longrightarrow> quiet s (PopScope s2)"
  by (auto simp: quiet_def balanced_def PushScope_def PopScope_def split: list.split)

lemma PushScope_PopScope_level: "level (PushScope s) s2 \<Longrightarrow> level s (PopScope s2)"
  by (auto simp: level_def balanced_def PushScope_def PopScope_def split: list.split)

lemma quiet_level: "quiet s s' \<Longrightarrow> level s s'"
  by (simp add: quiet_def level_def)

lemma quiet_then_level: "quiet s s1 \<Longrightarrow> level s1 s2 \<Longrightarrow> level s s2"
  by (auto simp: quiet_def level_def balanced_def)

subsection \<open>Built-in functions\<close>

lemma ExecutePrint_ok:
  "good visit \<Longrightarrow> list_all return_free args \<Longrightarrow> ok_from s (ExecutePrint visit n args s)"
  unfolding ExecutePrint_def
  by (auto intro!: ok_bind_state ok_bind_values ok_visit_hd [where visit = visit] split: val.split)

lemma ExecutePrintln_ok:
  "good visit \<Longrightarrow> list_all return_free args \<Longrightarrow> ok_from s (ExecutePrintln visit n args s)"
  unfolding ExecutePrintln_def
  by (auto intro!: ok_bind_state ExecutePrint_ok)

lemma ExecuteLen_ok:
  "good visit \<Longrightarrow> list_all return_free args \<Longrightarrow> ok_from s (ExecuteLen visit args s)"
  unfolding ExecuteLen_def
  by (auto intro!: ok_bind_state ok_bind_values ok_visit_hd [where visit = visit] split: val.split)

lemma ExecuteRead_ok: "ok_from s (ExecuteRead s)"
  unfolding ExecuteRead_def by (auto split: prod.split)

lemma ExecuteStackTrace_ok: "ok_from s (ExecuteStackTrace n s)"
  unfolding ExecuteStackTrace_def by (auto intro!: ok_bind_values split: list.split)

lemma ExecuteLower_ok:
  "good visit \<Longrightarrow> list_all return_free args \<Longrightarrow> ok_from s (ExecuteLower visit args s)"
  unfolding ExecuteLower_def
  by (auto intro!: ok_bind_state ok_bind_values ok_visit_hd [where visit = visit] split: val.split)

lemma ExecuteUpper_ok:
  "good visit \<Longrightarrow> list_all return_free args \<Longrightarrow> ok_from s (ExecuteUpper visit args s)"
  unfolding ExecuteUpper_def
  by (auto intro!: ok_bind_state ok_bind_values ok_visit_hd [where visit = visit] split: val.split)

lemma move_string_ok: "ok_snd s (move_string p s)"
  unfolding move_string_def by (auto intro!: ok_snd_bind_values)

lemma ExecuteJoin_ok:
  "good visit \<Longrightarrow> list_all return_free args \<Longrightarrow> ok_from s (ExecuteJoin visit n args s)"
  unfolding ExecuteJoin_def
  by (auto intro!: ok_bind_state ok_bind_values ok_bind_pair ok_visit_nth [where visit = visit]
        move_string_ok
      split: val.split)

lemma ExecuteSplit_ok:
  "good visit \<Longrightarrow> list_all return_free args \<Longrightarrow> ok_from s (ExecuteSplit visit n args s)"
  unfolding ExecuteSplit_def make_shared_strings_def
  by (auto intro!: ok_bind_state ok_bind_values ok_bind_pair ok_visit_nth [where visit = visit]
        move_string_ok
      split: val.split)

lemma ExecuteRange_ok:
  "good visit \<Longrightarrow> list_all return_free args \<Longrightarrow> ok_from s (ExecuteRange visit n args s)"
  unfolding ExecuteRange_def number_argument_def
  by (auto intro!: ok_bind_state ok_bind_values ok_visit_nth [where visit = visit]
      split: val.split)

lemma ExecutePush_ok:
  "good visit \<Longrightarrow> list_all return_free args \<Longrightarrow> ok_from s (ExecutePush visit args s)"
  unfolding ExecutePush_def list_argument_def
  by (auto intro!: ok_bind_state ok_bind_values ok_visit_nth [where visit = visit]
      split: val.split)

lemma ExecutePop_ok:
  "good visit \<Longrightarrow> list_all return_free args \<Longrightarrow> ok_from s (ExecutePop visit args s)"
  unfolding ExecutePop_def list_argument_def
  by (auto intro!: ok_bind_state ok_bind_values ok_visit_nth [where visit = visit]
      split: val.split)

lemma ExecuteInsert_ok:
  "good visit \<Longrightarrow> list_all return_free args \<Longrightarrow> ok_from s (ExecuteInsert visit args s)"
  unfolding ExecuteInsert_def list_argument_def number_argument_def
  by (auto intro!: ok_bind_state ok_bind_values ok_visit_nth [where visit = visit]
      split: val.split option.split)

lemma ExecuteRemove_ok:
  "good visit \<Longrightarrow> list_all return_free args \<Longrightarrow> ok_from s (ExecuteRemove visit args s)"
  unfolding ExecuteRemove_def list_argument_def number_argument_def
  by (auto intro!: ok_bind_state ok_bind_values ok_visit_nth [where visit = visit]
      split: val.split option.split)

lemma ExecuteSort_ok:
  "good visit \<Longrightarrow> list_all return_free args \<Longrightarrow> ok_from s (ExecuteSort L visit args s)"
  unfolding ExecuteSort_def list_argument_def
  by (auto intro!: ok_bind_state ok_bind_values ok_visit_nth [where visit = visit]
      split: val.split sum.split prod.split)

lemma slice_indices_ok:
  "good visit \<Longrightarrow> list_all return_free args \<Longrightarrow> ok_snd s (slice_indices visit args s)"
proof (induction args arbitrary: s)
  case Nil
  then show ?case by simp
next
  case (Cons a rest)
  then show ?case
    unfolding slice_indices.simps number_argument_def
    by (auto intro!: ok_snd_bind_state ok_snd_bind_values ok_snd_bind_pair
          ok_visit [where visit = visit]
        split: val.split option.split)
qed

lemma slice_list_ok: "ok_from s (slice_list n elements start finish step s)"
  unfolding slice_list_def by (auto intro!: ok_bind_values split: option.split)

lemma slice_string_ok: "ok_from s (slice_string str pos len s)"
  unfolding slice_string_def by (auto split: option.split sum.split)

lemma ExecuteSlice_ok:
  "good visit \<Longrightarrow> list_all return_free args \<Longrightarrow> ok_from s (ExecuteSlice visit n args s)"
  unfolding ExecuteSlice_def
  by (auto intro!: ok_bind_state ok_bind_values ok_bind_pair ok_visit [where visit = visit]
        slice_list_ok slice_string_ok slice_indices_ok
      split: val.split list.split)

lemma ExecuteReplace_ok:
  "good visit \<Longrightarrow> list_all return_free args \<Longrightarrow> ok_from s (ExecuteReplace visit n args s)"
  unfolding ExecuteReplace_def
  by (auto intro!: ok_bind_state ok_bind_values ok_visit_nth [where visit = visit])

lemma ExecuteCapitalize_ok:
  "good visit \<Longrightarrow> list_all return_free args \<Longrightarrow> ok_from s (ExecuteCapitalize visit args s)"
  unfolding ExecuteCapitalize_def
  by (auto intro!: ok_bind_state ok_bind_values ok_visit_hd [where visit = visit]
      split: val.split list.split)

lemma ExecuteOperationForNumber_ok:
  "good visit \<Longrightarrow> list_all return_free args
   \<Longrightarrow> ok_from s (ExecuteOperationForNumber visit function_name f args s)"
  unfolding ExecuteOperationForNumber_def
  by (auto intro!: ok_bind_state ok_bind_values ok_visit_hd [where visit = visit]
      split: val.split option.split)

lemma ExecuteRnd_ok:
  "good visit \<Longrightarrow> list_all return_free args \<Longrightarrow> ok_from s (ExecuteRnd L visit args s)"
  unfolding ExecuteRnd_def
  by (auto intro!: ok_bind_state ok_bind_values ok_visit_hd [where visit = visit]
      split: val.split)

lemma ExecuteParseNumber_ok:
  "good visit \<Longrightarrow> list_all return_free args \<Longrightarrow> ok_from s (ExecuteParseNumber L visit args s)"
  unfolding ExecuteParseNumber_def
  by (auto intro!: ok_bind_state ok_bind_values ok_visit_hd [where visit = visit]
      split: val.split option.split prod.split)

lemma ExecuteToString_ok:
  "good visit \<Longrightarrow> list_all return_free args \<Longrightarrow> ok_from s (ExecuteToString visit n args s)"
  unfolding ExecuteToString_def
  by (auto intro!: ok_bind_state ok_bind_values ok_visit_hd [where visit = visit])

lemma ExecuteGlobal_ok:
  "good visit \<Longrightarrow> list_all return_free args \<Longrightarrow> ok_from s (ExecuteGlobal L visit n name args s)"
  unfolding ExecuteGlobal_def
  by (cases name)
    (simp_all add: ExecutePrint_ok ExecutePrintln_ok ExecuteLen_ok ExecuteRead_ok
      ExecuteStackTrace_ok ExecuteLower_ok ExecuteUpper_ok ExecuteJoin_ok ExecuteSplit_ok
      ExecuteRange_ok ExecutePush_ok ExecutePop_ok ExecuteInsert_ok ExecuteRemove_ok
      ExecuteSort_ok ExecuteSlice_ok ExecuteReplace_ok ExecuteCapitalize_ok
      ExecuteOperationForNumber_ok ExecuteRnd_ok ExecuteParseNumber_ok ExecuteToString_ok
      ExecuteAbs_def ExecuteSqrt_def ExecuteCeil_def ExecuteFloor_def ExecuteRound_def)

subsection \<open>Loops\<close>

lemma level_trans:
  "level s s1 \<Longrightarrow> control_flow s1 \<noteq> kReturn \<Longrightarrow> level s1 s2 \<Longrightarrow> level s s2"
  by (auto simp: level_def balanced_def)

lemma lvl_visit: "good visit \<Longrightarrow> returns_guarded node \<Longrightarrow> lvl_from s (visit node s)"
  by (auto simp: good_def lvl_from_def)

lemma ok_lvl: "ok_from s m \<Longrightarrow> lvl_from s m"
  by (auto simp: ok_from_def lvl_from_def quiet_level)

lemma list_elements_ok:
  "good visit \<Longrightarrow> list_all return_free elements \<Longrightarrow> ok_snd s (list_elements visit elements s)"
  by (induction elements arbitrary: s)
    (auto intro!: ok_snd_bind_state ok_snd_bind_pair ok_visit [where visit = visit])

lemma ExecuteStatements_ok:
  "good visit \<Longrightarrow> list_all return_free statements
   \<Longrightarrow> ok_from s (ExecuteStatements visit statements s)"
  by (induction statements arbitrary: s)
    (auto intro!: ok_bind_state ok_visit [where visit = visit])

lemma ExecuteStatements_lvl:
  "good visit \<Longrightarrow> list_all returns_guarded statements
   \<Longrightarrow> lvl_from s (ExecuteStatements visit statements s)"
proof (induction statements arbitrary: s)
  case Nil
  then show ?case by (simp add: lvl_from_def level_def balanced_def)
next
  case (Cons statement rest)
  show ?case
    unfolding lvl_from_def
  proof (intro allI impI)
    fix s'
    assume run: "ExecuteStatements visit (statement # rest) s = Inr s'"
    then obtain s1 where first: "visit statement s = Inr s1"
      and more: "(if control_flow s1 \<noteq> kDefault then Inr s1
                  else ExecuteStatements visit rest s1) = Inr s'"
      by (auto elim!: and_thenE)
    have 1: "level s s1"
      using first Cons.prems by (auto simp: good_def)
    show "level s s'"
    proof (cases "control_flow s1 = kDefault")
      case True
      then have "ExecuteStatements visit rest s1 = Inr s'"
        using more by simp
      then have "level s1 s'"
        using Cons.IH [of s1] Cons.prems by (simp add: lvl_from_def)
      with 1 True show ?thesis
        by (auto intro: level_trans)
    next
      case False
      with more 1 show ?thesis by simp
    qed
  qed
qed

lemma call_arguments_ok:
  "good visit \<Longrightarrow> list_all return_free args \<Longrightarrow> ok_from s (call_arguments visit names args s)"
proof (induction names arbitrary: args s)
  case Nil
  then show ?case by simp
next
  case (Cons name names)
  then show ?case
    by (cases args)
      (auto intro!: ok_bind_state ok_visit [where visit = visit] SetVariable_ok)
qed

lemma call_body_lvl:
  "good visit \<Longrightarrow> list_all returns_guarded statements
   \<Longrightarrow> lvl_from s (call_body visit statements s)"
proof (induction statements arbitrary: s)
  case Nil
  then show ?case by (simp add: lvl_from_def level_def balanced_def)
next
  case (Cons statement rest)
  show ?case
    unfolding lvl_from_def
  proof (intro allI impI)
    fix s'
    assume run: "call_body visit (statement # rest) s = Inr s'"
    then obtain s1 where first: "visit statement s = Inr s1"
      and more: "(if control_flow s1 = kReturn then Inr s1 else call_body visit rest s1) = Inr s'"
      by (auto elim!: and_thenE)
    have 1: "level s s1"
      using first Cons.prems by (auto simp: good_def)
    show "level s s'"
    proof (cases "control_flow s1 = kReturn")
      case True
      with more 1 show ?thesis by simp
    next
      case False
      then have "call_body visit rest s1 = Inr s'"
        using more by simp
      then have "level s1 s'"
        using Cons.IH [of s1] Cons.prems by (simp add: lvl_from_def)
      with 1 False show ?thesis
        by (auto intro: level_trans)
    qed
  qed
qed

lemma root_statements_ok:
  "good visit \<Longrightarrow> list_all return_free statements
   \<Longrightarrow> ok_from s (root_statements visit statements s)"
  by (induction statements arbitrary: s)
    (auto intro!: ok_bind_state ok_visit [where visit = visit])

lemma after_iteration_quiet [simp]: "quiet s (after_iteration s') = quiet s s'"
  by (auto simp: after_iteration_def quiet_def balanced_def)

lemma ok_bracket:
  fixes m :: "state outcome"
  assumes "ok_from (PushScope s) m"
    and "\<And>s2. m = Inr s2 \<Longrightarrow> ok_from (after_iteration (PopScope s2)) (f s2)"
  shows "ok_from s (and_then m f)"
proof (cases m)
  case (Inl e)
  then show ?thesis by (simp add: and_then_def)
next
  case (Inr s2)
  then have "quiet (PushScope s) s2"
    using assms(1) by (simp add: ok_from_def)
  then have 1: "quiet s (after_iteration (PopScope s2))"
    by (simp add: PushScope_PopScope_quiet)
  show ?thesis
    unfolding ok_from_def
  proof (intro allI impI)
    fix s'
    assume "and_then m f = Inr s'"
    then have "f s2 = Inr s'"
      using Inr by (simp add: and_then_def)
    then have "quiet (after_iteration (PopScope s2)) s'"
      using assms(2) [OF Inr] by (simp add: ok_from_def)
    with 1 show "quiet s s'"
      by (rule quiet_trans)
  qed
qed

lemma while_loop_ok:
  "good visit \<Longrightarrow> return_free condition \<Longrightarrow> list_all return_free statements
   \<Longrightarrow> ok_from s (while_loop visit n condition statements s)"
proof (induction n arbitrary: s)
  case 0
  then show ?case by simp
next
  case (Suc n)
  show ?case
    unfolding while_loop.simps
    by (intro ok_bind_state ok_visit [where visit = visit] ok_bind_values)
      (auto intro!: ok_bracket ExecuteStatements_ok Suc)
qed

lemma for_list_ok:
  "good visit \<Longrightarrow> list_all return_free statements
   \<Longrightarrow> ok_from s (for_list visit iterable_name p i remaining statements s)"
proof (induction remaining arbitrary: s i)
  case 0
  then show ?case by simp
next
  case (Suc remaining)
  have body: "ok_from (PushScope s)
      (and_then (SetVariable iterable_name v (PushScope s)) (ExecuteStatements visit statements))"
    for v
    by (intro ok_bind_state SetVariable_ok ExecuteStatements_ok Suc.prems)
  show ?case
    unfolding ok_from_def
  proof (intro allI impI)
    fix s'
    assume "for_list visit iterable_name p i (Suc remaining) statements s = Inr s'"
    then obtain elements s1 s2 where "list_at s p = Inr elements"
      and 1: "SetVariable iterable_name (elements ! i) (PushScope s) = Inr s1"
      and 2: "ExecuteStatements visit statements s1 = Inr s2"
      and 3: "for_list visit iterable_name p (Suc i) remaining statements
                (after_iteration (PopScope s2)) = Inr s'"
      by (auto elim!: and_thenE split: if_splits)
    have "quiet (PushScope s) s2"
      using body [of "elements ! i"] 1 2 by (simp add: ok_from_def and_then_def)
    then have "quiet s (after_iteration (PopScope s2))"
      by (simp add: PushScope_PopScope_quiet)
    moreover have "quiet (after_iteration (PopScope s2)) s'"
      using Suc.IH [OF Suc.prems] 3 by (simp add: ok_from_def)
    ultimately show "quiet s s'"
      by (rule quiet_trans)
  qed
qed

lemma for_string_body_ok:
  assumes "good visit" and "list_all return_free statements"
    and "for_string_body visit statements s = Inr (returned, s')"
    and "control_flow s \<noteq> kReturn"
  shows "\<not> returned \<and> balanced s s' \<and> control_flow s' \<noteq> kReturn"
  using assms(2-)
proof (induction statements arbitrary: s)
  case Nil
  then show ?case by (simp add: balanced_def)
next
  case (Cons statement rest)
  from Cons.prems(2) obtain s1 where first: "visit statement s = Inr s1"
    and more: "(if control_flow s1 = kBreak then Inr (False, s1\<lparr>control_flow := kDefault\<rparr>)
                else if control_flow s1 = kContinue
                then for_string_body visit rest (s1\<lparr>control_flow := kDefault\<rparr>)
                else if control_flow s1 = kReturn then Inr (True, s1)
                else for_string_body visit rest s1) = Inr (returned, s')"
    by (auto elim!: and_thenE)
  have "quiet s s1"
    using first Cons.prems(1) assms(1) by (auto simp: good_def)
  then have 1: "balanced s s1" and 2: "control_flow s1 \<noteq> kReturn"
    using Cons.prems(3) by (simp_all add: quiet_def)
  have trans: "balanced s1 t \<Longrightarrow> balanced s t" for t
    using 1 by (auto simp: balanced_def)
  have upd: "balanced (s1\<lparr>control_flow := kDefault\<rparr>) t \<Longrightarrow> balanced s1 t" for t
    by (simp add: balanced_def)
  show ?case
  proof (cases "control_flow s1")
    case kBreak
    with more 1 show ?thesis by (auto simp: balanced_def)
  next
    case kContinue
    with more have "for_string_body visit rest (s1\<lparr>control_flow := kDefault\<rparr>) = Inr (returned, s')"
      by simp
    then show ?thesis
      using Cons.IH [of "s1\<lparr>control_flow := kDefault\<rparr>"] Cons.prems(1) trans upd by auto
  next
    case kReturn
    with 2 show ?thesis by simp
  next
    case kDefault
    with more have "for_string_body visit rest s1 = Inr (returned, s')"
      by simp
    then show ?thesis
      using Cons.IH [of s1] Cons.prems(1) 2 trans by auto
  qed
qed

lemma for_string_ok:
  "good visit \<Longrightarrow> list_all return_free statements
   \<Longrightarrow> ok_from s (for_string visit iterable_name p i remaining statements s)"
proof (induction remaining arbitrary: s i)
  case 0
  then show ?case by simp
next
  case (Suc remaining)
  show ?case
    unfolding ok_from_def quiet_def
  proof (intro allI impI)
    fix s'
    assume run: "for_string visit iterable_name p i (Suc remaining) statements s = Inr s'"
      and flag: "control_flow s \<noteq> kReturn"
    from run obtain str s2 returned s3 where "string_at s p = Inr str"
      and 1: "SetVariable iterable_name (StringPtr (length (string_heap (PushScope s))))
                ((PushScope s)\<lparr>string_heap := string_heap (PushScope s) @ [[str ! i]]\<rparr>) = Inr s2"
      and 2: "for_string_body visit statements s2 = Inr (returned, s3)"
      and 3: "(if returned then Inr s3
               else for_string visit iterable_name p (Suc i) remaining statements (PopScope s3))
              = Inr s'"
      by (auto simp: Let_def elim!: and_thenE split: if_splits)
    have "quiet ((PushScope s)\<lparr>string_heap := string_heap (PushScope s) @ [[str ! i]]\<rparr>) s2"
      using SetVariable_ok 1 by (auto simp: ok_from_def)
    then have "quiet (PushScope s) s2"
      by (simp add: quiet_def balanced_def)
    then have a: "balanced (PushScope s) s2" and b: "control_flow s2 \<noteq> kReturn"
      using flag by (simp_all add: quiet_def PushScope_def)
    from for_string_body_ok [OF Suc.prems 2 b]
    have c: "\<not> returned" and d: "balanced s2 s3" and e: "control_flow s3 \<noteq> kReturn"
      by simp_all
    have "quiet (PushScope s) s3"
      using a d e by (auto simp: quiet_def balanced_def)
    then have "quiet s (PopScope s3)"
      by (rule PushScope_PopScope_quiet)
    moreover have "quiet (PopScope s3) s'"
      using Suc.IH [OF Suc.prems] 3 c by (simp add: ok_from_def)
    ultimately have "quiet s s'"
      by (rule quiet_trans)
    then show "balanced s s' \<and> control_flow s' \<noteq> kReturn"
      using flag by (simp add: quiet_def)
  qed
qed

subsection \<open>The members of the visitor\<close>

lemma binary_ok:
  "good visit \<Longrightarrow> return_free lhs \<Longrightarrow> return_free rhs
   \<Longrightarrow> (\<And>l r t. ok_from t (calculate l r t))
   \<Longrightarrow> ok_from s (binary visit calculate lhs rhs s)"
  unfolding binary_def
  by (auto intro!: ok_bind_state ok_visit [where visit = visit])

lemma compound_assign_ok:
  "good visit \<Longrightarrow> return_free lhs \<Longrightarrow> return_free rhs
   \<Longrightarrow> (\<And>l r t. ok_from t (calculate l r t))
   \<Longrightarrow> ok_from s (compound_assign visit calculate lhs rhs s)"
  unfolding compound_assign_def
  by (auto intro!: ok_bind_state binary_ok AssignToLeftOperand_ok)

lemma CalculateAssign_ok:
  "good visit \<Longrightarrow> return_free rhs \<Longrightarrow> ok_from s (CalculateAssign visit lhs rhs s)"
  unfolding CalculateAssign_def
  by (auto intro!: ok_bind_state ok_visit [where visit = visit] AssignToLeftOperand_ok)

lemma CalculateUnary_ok:
  assumes "good visit" and "return_free arg"
  shows "ok_from s (CalculateUnaryMinus visit arg s)"
    and "ok_from s (CalculateUnaryPlus visit arg s)"
    and "ok_from s (CalculateLogicalNot visit arg s)"
  using assms
  unfolding CalculateUnaryMinus_def CalculateUnaryPlus_def CalculateLogicalNot_def
  by (auto intro!: ok_bind_state ok_bind_values ok_visit [where visit = visit] split: val.split)

lemma ok_bracket_pop:
  fixes m :: "state outcome"
  assumes "ok_from (PushScope s) m"
  shows "ok_from s (and_then m (\<lambda>s2. Inr (PopScope s2)))"
  using assms
  by (cases m) (auto simp: ok_from_def and_then_def intro: PushScope_PopScope_quiet)

lemma guarded_body:
  "guarded_program F \<Longrightarrow> p < length F \<Longrightarrow> list_all returns_guarded (body (F ! p))"
  by (simp add: guarded_program_def list_all_length)

text \<open>What both kinds of call do between \<^verbatim>\<open>PushScope()\<close> and \<^verbatim>\<open>PopScope()\<close>.\<close>

lemma call_level:
  assumes "good visit" and "list_all return_free args" and "list_all returns_guarded statements"
    and "call_arguments visit names args (PushScope s) = Inr s2"
    and "call_body visit statements s2 = Inr s3"
    and "control_flow s \<noteq> kReturn"
  shows "length (scopes (PopScope s3)) = length (scopes s)"
proof -
  have "quiet (PushScope s) s2"
    using call_arguments_ok [OF assms(1,2)] assms(4) by (simp add: ok_from_def)
  then have 1: "balanced (PushScope s) s2" and 2: "control_flow s2 \<noteq> kReturn"
    using assms(6) by (simp_all add: quiet_def PushScope_def)
  have "level s2 s3"
    using call_body_lvl [OF assms(1,3)] assms(5) by (simp add: lvl_from_def)
  then have "balanced s2 s3"
    using 2 by (simp add: level_def)
  with 1 show ?thesis
    by (auto simp: balanced_def PushScope_def PopScope_def split: list.split)
qed

lemma FunctionCallNode_ok:
  assumes "good visit" and "guarded_program F" and "list_all return_free args"
  shows "ok_from s (Visit_node L F visit n (FunctionCallNode function_name args) s)"
  unfolding ok_from_def quiet_def
proof (intro allI impI)
  fix s'
  assume run: "Visit_node L F visit n (FunctionCallNode function_name args) s = Inr s'"
    and flag: "control_flow s \<noteq> kReturn"
  from run obtain p s2 s3 where p: "p < length F"
    and 1: "call_arguments visit (arg_names (F ! p)) args (PushScope s) = Inr s2"
    and 2: "call_body visit (body (F ! p)) s2 = Inr s3"
    and 3: "scopes s' = scopes (PopScope s3)" and 4: "control_flow s' = kDefault"
    by (auto simp: Let_def not_le elim!: and_thenE split: if_splits option.splits val.splits)
  have "length (scopes (PopScope s3)) = length (scopes s)"
    using call_level [OF assms(1,3) guarded_body [OF assms(2) p] 1 2 flag] .
  then show "balanced s s' \<and> control_flow s' \<noteq> kReturn"
    using 3 4 by (simp add: balanced_def)
qed

lemma UnnamedFunctionCallNode_ok:
  assumes "good visit" and "guarded_program F" and "return_free function"
    and "list_all return_free args"
  shows "ok_from s (Visit_node L F visit n (UnnamedFunctionCallNode function args) s)"
  unfolding ok_from_def quiet_def
proof (intro allI impI)
  fix s'
  assume run: "Visit_node L F visit n (UnnamedFunctionCallNode function args) s = Inr s'"
    and flag: "control_flow s \<noteq> kReturn"
  from run obtain s1 p s2 s3 where 0: "visit function s = Inr s1" and p: "p < length F"
    and 1: "call_arguments visit (arg_names (F ! p)) args (PushScope s1) = Inr s2"
    and 2: "call_body visit (body (F ! p)) s2 = Inr s3"
    and 3: "scopes s' = scopes (PopScope s3)" and 4: "control_flow s' \<noteq> kReturn"
    by (auto simp: Let_def not_le elim!: and_thenE split: if_splits val.splits)
  have "quiet s s1"
    using 0 assms(1,3) by (auto simp: good_def)
  then have a: "balanced s s1" and b: "control_flow s1 \<noteq> kReturn"
    using flag by (simp_all add: quiet_def)
  have "length (scopes (PopScope s3)) = length (scopes s1)"
    using call_level [OF assms(1,4) guarded_body [OF assms(2) p] 1 2 b] .
  then show "balanced s s' \<and> control_flow s' \<noteq> kReturn"
    using 3 4 a by (auto simp: balanced_def)
qed

lemma Visit_node_ok:
  assumes "good visit" and "guarded_program F" and "return_free node"
  shows "ok_from s (Visit_node L F visit n node s)"
proof (cases node)
  case (VariableNode name)
  then show ?thesis by (auto split: option.split)
next
  case (ListLiteralNode elements)
  then show ?thesis
    using assms by (auto intro!: ok_bind_pair list_elements_ok)
next
  case (BinaryOperationNode operation lhs rhs)
  then show ?thesis
    using assms
    by (cases operation)
      (simp_all add: binary_ok compound_assign_ok CalculateAssign_ok Calculate_ok)
next
  case (UnaryOperationNode operation arg)
  then show ?thesis
    using assms
    by (cases operation)
      (auto intro!: ok_bind_state ok_visit [where visit = visit] CalculateUnary_ok)
next
  case (IfNode then_statements else_statements condition)
  then show ?thesis
    using assms
    by (auto intro!: ok_bind_state ok_bind_values ok_visit [where visit = visit]
        ok_bracket_pop ExecuteStatements_ok)
next
  case (WhileNode condition statements)
  then show ?thesis
    using assms by (simp add: while_loop_ok)
next
  case (ForNode iterable_name sequence statements)
  then show ?thesis
    using assms
    by (auto intro!: ok_bind_state ok_bind_values ok_visit [where visit = visit]
        for_list_ok for_string_ok split: val.split)
next
  case (RootNode statements)
  then show ?thesis
    using assms by (simp add: root_statements_ok)
next
  case (GlobalFunctionNode name args)
  then show ?thesis
    using assms by (simp add: ExecuteGlobal_ok)
next
  case (FunctionCallNode function_name args)
  then show ?thesis
    using assms by (simp add: FunctionCallNode_ok del: Visit_node.simps)
next
  case (UnnamedFunctionCallNode callee args)
  then show ?thesis
    using assms by (simp add: UnnamedFunctionCallNode_ok del: Visit_node.simps)
next
  case (ReturnNode v)
  then show ?thesis
    using assms by simp
qed (auto simp: quiet_def balanced_def make_shared_string_def)

lemma Visit_node_lvl:
  assumes "good visit" and "guarded_program F" and "returns_guarded node"
  shows "lvl_from s (Visit_node L F visit n node s)"
proof (cases node)
  case (ReturnNode v)
  then have "return_free v"
    using assms(3) by simp
  then have "ok_from s (visit v s)"
    using assms(1) by (rule ok_visit [rotated])
  then show ?thesis
    using ReturnNode
    by (auto simp: lvl_from_def ok_from_def quiet_def level_def balanced_def elim!: and_thenE)
next
  case (IfNode then_statements else_statements condition)
  show ?thesis
    unfolding lvl_from_def
  proof (intro allI impI)
    fix s'
    assume "Visit_node L F visit n node s = Inr s'"
    then obtain s1 c s2 where 1: "visit condition s = Inr s1"
      and 2: "ExecuteStatements visit (if c then then_statements else else_statements)
                (PushScope s1) = Inr s2"
      and 3: "s' = PopScope s2"
      using IfNode by (auto elim!: and_thenE)
    have "quiet s s1"
      using 1 assms(1,3) IfNode by (auto simp: good_def)
    moreover have "level (PushScope s1) s2"
      using ExecuteStatements_lvl [OF assms(1), of "if c then then_statements else else_statements"]
        2 assms(3) IfNode
      by (auto simp: lvl_from_def split: if_splits)
    then have "level s1 (PopScope s2)"
      by (rule PushScope_PopScope_level)
    ultimately show "level s s'"
      using 3 by (auto intro: quiet_then_level)
  qed
qed (insert assms, auto intro!: ok_lvl Visit_node_ok simp del: Visit_node.simps)

lemma Visit_node_good:
  "good visit \<Longrightarrow> guarded_program F \<Longrightarrow> good (Visit_node L F visit n)"
  using Visit_node_ok [of visit F _ _ L n] Visit_node_lvl [of visit F _ _ L n]
  unfolding good_def ok_from_def lvl_from_def
  by blast

lemma Visit_good: "guarded_program F \<Longrightarrow> good (Visit L F n)"
  by (induction n) (simp_all add: good_def Visit_node_good [unfolded good_def])

text \<open>
  C3 (fails on the code as stated). Three runs that end with a deeper stack than they began
  with. (1) A top-level run from the state of a fresh visitor: \<^verbatim>\<open>a = 1\<close> begins with no
  scope and ends with one, which \<^verbatim>\<open>SetVariable\<close> pushes when the stack is empty. (2) A
  runtime error: in \<^verbatim>\<open>if 1 then x end if\<close> the lookup of \<open>x\<close> throws between
  \<^verbatim>\<open>PushScope()\<close> and \<^verbatim>\<open>PopScope()\<close>, and nothing pops on the way out. (3) \<^verbatim>\<open>return\<close> in
  the body of a \<^verbatim>\<open>for\<close> over a string: the string branch of \<^verbatim>\<open>Visit(ForNode&)\<close> leaves by
  \<^verbatim>\<open>return\<close> without \<^verbatim>\<open>PopScope()\<close>.
\<close>

theorem scope_stack_not_balanced:
  "Visit example_library [] 3
     (RootNode [BinaryOperationNode kAssign (VariableNode ''a'') (NumberLiteralNode 1)])
     (initial [])
   = Inr ((initial [])\<lparr>result := Number 1, scopes := [[(''a'', Number 1)]],
                        function_names := [{}]\<rparr>)
   \<and> Visit example_library [] 3
     (IfNode [VariableNode ''x''] [] (NumberLiteralNode 1))
     ((initial [])\<lparr>scopes := [[(''a'', Number 1)]], function_names := [{}]\<rparr>)
   = Inl (Thrown (runtime_error (''Variable '' @ quoted ''x'' @ '' not found''))
           ((initial [])\<lparr>result := Number 1, scopes := [[], [(''a'', Number 1)]],
                           function_names := [{}, {}]\<rparr>))
   \<and> Visit example_library [] 3
     (ForNode ''c'' (StringLiteralNode ''a'') [ReturnNode (NumberLiteralNode 1)])
     ((initial [])\<lparr>scopes := [[(''a'', Number 1)]], function_names := [{}]\<rparr>)
   = Inr ((initial [])\<lparr>result := Number 1,
                        scopes := [[(''c'', StringPtr 1)], [(''a'', Number 1)]],
                        function_names := [{}, {}], control_flow := kReturn,
                        string_heap := [''a'', ''a'']\<rparr>)"
  by (simp add: run_simps)

text \<open>
  C3, as amended. In a program whose \<^verbatim>\<open>return\<close> statements stand in function bodies
  outside loops (as statements of the body or of \<^verbatim>\<open>if\<close> blocks in it), every evaluation
  that completes without a runtime error and starts with a flag other than \<^verbatim>\<open>kReturn\<close>
  pairs each push with a pop: it leaves the depth of the scope stack as it was, except
  that on an empty stack the first binding creates the global scope, which stays. So a
  top-level run from a fresh visitor ends at depth 0 or 1.
\<close>

theorem scope_stack_balanced:
  assumes "Visit L F n node s = Inr s'"
    and "guarded_program F"
    and "returns_guarded node"
    and "control_flow s \<noteq> kReturn"
  shows "length (scopes s') = length (scopes s) \<or> (scopes s = [] \<and> length (scopes s') = 1)"
  using Visit_good [OF assms(2), of L n] assms(1,3,4)
  by (auto simp: good_def level_def balanced_def)

theorem scope_stack_balanced_witness:
  "guarded_program
     [\<lparr>body = [ReturnNode (BinaryOperationNode kPlus (VariableNode ''a'') (NumberLiteralNode 1))],
       arg_names = [''a'']\<rparr>]
   \<and> returns_guarded
     (RootNode
       [BinaryOperationNode kAssign (VariableNode ''f'') (FunctionImplementationNode 0),
        ForNode ''c'' (StringLiteralNode ''ab'')
          [BinaryOperationNode kAssign (VariableNode ''x'')
             (FunctionCallNode ''f'' [NumberLiteralNode 1])]])
   \<and> Visit example_library
     [\<lparr>body = [ReturnNode (BinaryOperationNode kPlus (VariableNode ''a'') (NumberLiteralNode 1))],
       arg_names = [''a'']\<rparr>] 7
     (RootNode
       [BinaryOperationNode kAssign (VariableNode ''f'') (FunctionImplementationNode 0),
        ForNode ''c'' (StringLiteralNode ''ab'')
          [BinaryOperationNode kAssign (VariableNode ''x'')
             (FunctionCallNode ''f'' [NumberLiteralNode 1])]])
     (initial [])
   = Inr ((initial [])\<lparr>result := Number 2, scopes := [[(''f'', FunctionPtr 0)]],
                        function_names := [{''f''}, {''f''}],
                        string_heap := [''ab'', ''a'', ''b'']\<rparr>)
   \<and> length (scopes ((initial [])\<lparr>result := Number 2, scopes := [[(''f'', FunctionPtr 0)]],
                        function_names := [{''f''}, {''f''}],
                        string_heap := [''ab'', ''a'', ''b'']\<rparr>)) = 1"
proof -
  let ?F = "[\<lparr>body = [ReturnNode (BinaryOperationNode kPlus (VariableNode ''a'')
                               (NumberLiteralNode 1))],
              arg_names = [''a'']\<rparr>]"
  let ?root = "RootNode
       [BinaryOperationNode kAssign (VariableNode ''f'') (FunctionImplementationNode 0),
        ForNode ''c'' (StringLiteralNode ''ab'')
          [BinaryOperationNode kAssign (VariableNode ''x'')
             (FunctionCallNode ''f'' [NumberLiteralNode 1])]]"
  let ?s = "(initial [])\<lparr>result := Number 2, scopes := [[(''f'', FunctionPtr 0)]],
                        function_names := [{''f''}, {''f''}],
                        string_heap := [''ab'', ''a'', ''b'']\<rparr>"
  have run: "Visit example_library ?F 7 ?root (initial []) = Inr ?s"
    by (simp add: run_simps)
  have program: "guarded_program ?F"
    by (simp add: guarded_program_def)
  have root: "returns_guarded ?root"
    by simp
  have flag: "control_flow (initial []) \<noteq> kReturn"
    by (simp add: initial_def)
  from scope_stack_balanced [OF run program root flag]
  have "length (scopes ?s) = 1"
    by (simp add: initial_def)
  with run program root show ?thesis
    by blast
qed

end
